theory Spec2Isabelle
  imports Main "HOL-Library.AList"
begin

section \<open>JavaScript values\<close>

text \<open>
  The values that travel through \<^verbatim>\<open>server.js\<close>: parsed JSON request bodies, the
  objects the handlers build, Firestore documents and JSON responses. \<open>JUndefined\<close> is what
  reading a property that an object does not have yields; \<open>JTimestamp\<close> is a Firestore
  \<^verbatim>\<open>Timestamp\<close> (milliseconds). Numbers are integers here: the program only tests them
  for being zero. An object is the list of its properties in insertion order.
\<close>

datatype jsval =
    JUndefined
  | JNull
  | JBool bool
  | JNum int
  | JStr string
  | JTimestamp nat
  | JArr "jsval list"
  | JObj "(string \<times> jsval) list"

type_synonym obj = "(string \<times> jsval) list"

text \<open>JavaScript truthiness, as used by \<^verbatim>\<open>!x\<close> and \<^verbatim>\<open>x || y\<close>.\<close>

fun truthy :: "jsval \<Rightarrow> bool" where
  "truthy JUndefined = False"
| "truthy JNull = False"
| "truthy (JBool b) = b"
| "truthy (JNum n) = (n \<noteq> 0)"
| "truthy (JStr s) = (s \<noteq> [])"
| "truthy (JTimestamp t) = True"
| "truthy (JArr xs) = True"
| "truthy (JObj ps) = True"

text \<open>\<^verbatim>\<open>a || b\<close>\<close>

definition js_or :: "jsval \<Rightarrow> jsval \<Rightarrow> jsval" where
  "js_or a b = (if truthy a then a else b)"

text \<open>Property read \<^verbatim>\<open>x.k\<close> (also what destructuring \<^verbatim>\<open>const { k } = x\<close> binds).\<close>

definition js_get :: "obj \<Rightarrow> string \<Rightarrow> jsval" where
  "js_get x k = (case map_of x k of None \<Rightarrow> JUndefined | Some v \<Rightarrow> v)"

text \<open>
  Object spread \<^verbatim>\<open>{ ...base, ...extra }\<close>: the properties of \<open>extra\<close> are assigned
  from left to right; an existing property keeps its place and takes the new value.
\<close>

definition spread :: "obj \<Rightarrow> obj \<Rightarrow> obj" where
  "spread base extra = fold (\<lambda>(k, v) acc. AList.update k v acc) extra base"

section \<open>Requests and responses\<close>

text \<open>
  \<open>authorization\<close> is \<^verbatim>\<open>req.headers.authorization\<close> (\<open>None\<close> when the header was not
  sent, \<open>Some []\<close> when it was sent with an empty value), \<open>body\<close> is \<^verbatim>\<open>req.body\<close> as
  \<^verbatim>\<open>express.json()\<close> leaves it (the parsed JSON object, and the empty object when the
  request carries no JSON), \<open>param_id\<close> is \<^verbatim>\<open>req.params.id\<close>. A response is the status
  given to \<^verbatim>\<open>res.status\<close> (200 when \<^verbatim>\<open>res.json\<close> is called alone) and the value given
  to \<^verbatim>\<open>res.json\<close>.
\<close>

record request =
  authorization :: "string option"
  body :: obj
  param_id :: string

record response =
  status :: nat
  json :: jsval

definition error_json :: "string \<Rightarrow> jsval" where
  "error_json msg = JObj [(''error'', JStr msg)]"

definition message_json :: "string \<Rightarrow> jsval" where
  "message_json msg = JObj [(''message'', JStr msg)]"

section \<open>The external services\<close>

text \<open>
  Firebase Auth and Firestore are not part of the repository. They are modelled as the
  state the handlers can observe and change, together with what the environment decides:
  \<^item> \<open>id_tokens\<close>: the outcome of \<^verbatim>\<open>verifyIdToken\<close> for each token (\<open>None\<close>: it throws);
  \<^item> \<open>faults\<close>: the outcomes of the coming calls to \<^verbatim>\<open>createUser\<close> and to Firestore, in
    order (\<open>Some msg\<close>: the call throws an error with that message; when the list is used
    up, calls succeed); a call that the SDK rejects before sending it takes no outcome;
  \<^item> \<open>auto_ids\<close>, \<open>ids_issued\<close>: the identifiers the services assign to new users and documents;
  \<^item> \<open>clock\<close>, \<open>clock_reads\<close>: what successive calls of \<^verbatim>\<open>Timestamp.now()\<close> return;
  \<^item> \<open>trace\<close>: every call made to a service, in order.
\<close>

datatype call =
    VerifyIdToken string
  | CreateUser jsval jsval jsval
  | UsersSet string obj
  | TodosAdd obj
  | TodosGet string
  | TodosWhereUserId string
  | TodosDelete string
  | TodosUpdate string obj

record account =
  acc_uid :: string
  acc_email :: jsval
  acc_password :: jsval
  acc_displayName :: jsval

record world =
  id_tokens :: "string \<Rightarrow> string option"
  accounts :: "account list"
  users :: "(string \<times> obj) list"
  todos :: "(string \<times> obj) list"
  faults :: "string option list"
  auto_ids :: "nat \<Rightarrow> string"
  ids_issued :: nat
  clock :: "nat \<Rightarrow> nat"
  clock_reads :: nat
  trace :: "call list"

definition log_call :: "call \<Rightarrow> world \<Rightarrow> world" where
  "log_call c w = w\<lparr>trace := trace w @ [c]\<rparr>"

definition sdk_outcome :: "world \<Rightarrow> string option \<times> world" where
  "sdk_outcome w =
     (case faults w of
        [] \<Rightarrow> (None, w)
      | f # fs \<Rightarrow> (f, w\<lparr>faults := fs\<rparr>))"

definition new_id :: "world \<Rightarrow> string \<times> world" where
  "new_id w = (auto_ids w (ids_issued w), w\<lparr>ids_issued := Suc (ids_issued w)\<rparr>)"

text \<open>\<^verbatim>\<open>admin.firestore.Timestamp.now()\<close>\<close>

definition Timestamp_now :: "world \<Rightarrow> jsval \<times> world" where
  "Timestamp_now w = (JTimestamp (clock w (clock_reads w)), w\<lparr>clock_reads := Suc (clock_reads w)\<rparr>)"

text \<open>\<^verbatim>\<open>admin.auth().verifyIdToken(token)\<close>: the decoded token's \<open>uid\<close>, or \<open>None\<close> when it throws.\<close>

definition verifyIdToken :: "string \<Rightarrow> world \<Rightarrow> string option \<times> world" where
  "verifyIdToken token w = (id_tokens w token, log_call (VerifyIdToken token) w)"

text \<open>\<^verbatim>\<open>admin.auth().createUser({ email, password, displayName })\<close>: the new user's \<open>uid\<close>.\<close>

definition createUser :: "jsval \<Rightarrow> jsval \<Rightarrow> jsval \<Rightarrow> world \<Rightarrow> (string + string) \<times> world" where
  "createUser email password displayName w =
     (case sdk_outcome (log_call (CreateUser email password displayName) w) of
        (Some msg, w1) \<Rightarrow> (Inl msg, w1)
      | (None, w1) \<Rightarrow>
          (case new_id w1 of
             (uid, w2) \<Rightarrow>
               (Inr uid,
                w2\<lparr>accounts := accounts w2 @
                     [\<lparr>acc_uid = uid, acc_email = email, acc_password = password,
                       acc_displayName = displayName\<rparr>]\<rparr>)))"

text \<open>
  Firestore as \<^verbatim>\<open>admin.firestore()\<close> gives it (\<^verbatim>\<open>ignoreUndefinedProperties\<close> is never
  set) rejects a write in which a property has the value \<^verbatim>\<open>undefined\<close>: the call throws
  while it validates its argument, before anything is sent to the store.
\<close>

definition has_undefined :: "obj \<Rightarrow> bool" where
  "has_undefined data = (\<exists>(k, v) \<in> set data. v = JUndefined)"

definition undefined_rejected :: string where
  "undefined_rejected = ''Cannot use undefined as a Firestore value''"

text \<open>\<^verbatim>\<open>db.collection('users').doc(uid).set(data)\<close>: creates or replaces the document.\<close>

definition users_doc_set :: "string \<Rightarrow> obj \<Rightarrow> world \<Rightarrow> string option \<times> world" where
  "users_doc_set uid data w =
     (if has_undefined data then (Some undefined_rejected, log_call (UsersSet uid data) w)
      else
        (case sdk_outcome (log_call (UsersSet uid data) w) of
           (Some msg, w1) \<Rightarrow> (Some msg, w1)
         | (None, w1) \<Rightarrow> (None, w1\<lparr>users := AList.update uid data (users w1)\<rparr>)))"

text \<open>
  \<^verbatim>\<open>db.collection('todos').add(data)\<close>: creates a document under an identifier the store
  assigns, and throws when a document with that identifier exists already.
\<close>

definition todos_add :: "obj \<Rightarrow> world \<Rightarrow> (string + string) \<times> world" where
  "todos_add data w =
     (if has_undefined data then (Inl undefined_rejected, log_call (TodosAdd data) w)
      else
        (case sdk_outcome (log_call (TodosAdd data) w) of
           (Some msg, w1) \<Rightarrow> (Inl msg, w1)
         | (None, w1) \<Rightarrow>
             (case new_id w1 of
                (i, w2) \<Rightarrow>
                  (case map_of (todos w2) i of
                     Some d \<Rightarrow> (Inl ''ALREADY_EXISTS'', w2)
                   | None \<Rightarrow> (Inr i, w2\<lparr>todos := todos w2 @ [(i, data)]\<rparr>)))))"

text \<open>
  \<^verbatim>\<open>db.collection('todos').doc(id).get()\<close>: \<open>None\<close> is a snapshot with
  \<^verbatim>\<open>exists === false\<close>, \<open>Some d\<close> one whose \<^verbatim>\<open>data()\<close> is \<open>d\<close>.
\<close>

definition todos_doc_get :: "string \<Rightarrow> world \<Rightarrow> (string + obj option) \<times> world" where
  "todos_doc_get i w =
     (case sdk_outcome (log_call (TodosGet i) w) of
        (Some msg, w1) \<Rightarrow> (Inl msg, w1)
      | (None, w1) \<Rightarrow> (Inr (map_of (todos w1) i), w1))"

text \<open>\<^verbatim>\<open>db.collection('todos').where('userId', '==', uid).get()\<close>: the matching documents.\<close>

definition todos_where_get :: "string \<Rightarrow> world \<Rightarrow> (string + (string \<times> obj) list) \<times> world" where
  "todos_where_get uid w =
     (case sdk_outcome (log_call (TodosWhereUserId uid) w) of
        (Some msg, w1) \<Rightarrow> (Inl msg, w1)
      | (None, w1) \<Rightarrow> (Inr (filter (\<lambda>(i, d). js_get d ''userId'' = JStr uid) (todos w1)), w1))"

text \<open>\<^verbatim>\<open>docRef.delete()\<close>: removes the document; deleting a missing document succeeds.\<close>

definition todos_doc_delete :: "string \<Rightarrow> world \<Rightarrow> string option \<times> world" where
  "todos_doc_delete i w =
     (case sdk_outcome (log_call (TodosDelete i) w) of
        (Some msg, w1) \<Rightarrow> (Some msg, w1)
      | (None, w1) \<Rightarrow> (None, w1\<lparr>todos := AList.delete i (todos w1)\<rparr>))"

text \<open>
  \<^verbatim>\<open>docRef.update(data)\<close>: assigns the given fields in the stored document and leaves its
  other fields alone; it throws when a given field is \<^verbatim>\<open>undefined\<close> and when the document
  does not exist.
\<close>

definition todos_doc_update :: "string \<Rightarrow> obj \<Rightarrow> world \<Rightarrow> string option \<times> world" where
  "todos_doc_update i data w =
     (if has_undefined data then (Some undefined_rejected, log_call (TodosUpdate i data) w)
      else
        (case sdk_outcome (log_call (TodosUpdate i data) w) of
           (Some msg, w1) \<Rightarrow> (Some msg, w1)
         | (None, w1) \<Rightarrow>
             (case map_of (todos w1) i of
                None \<Rightarrow> (Some ''NOT_FOUND'', w1)
              | Some d0 \<Rightarrow>
                  (None,
                   w1\<lparr>todos := map (\<lambda>(j, d). if j = i then (j, spread d data) else (j, d))
                                  (todos w1)\<rparr>))))"

section \<open>The middleware and the handlers of \<^verbatim>\<open>server.js\<close>\<close>

text \<open>
  Each handler takes the request and the world and returns the response and the world
  after it. An \<^verbatim>\<open>await\<close> that throws is the \<open>Inl\<close> or \<open>Some msg\<close> outcome of the call,
  and the \<^verbatim>\<open>catch\<close> branch of the handler is the case for it. The login route, which
  talks to the client SDK only, is not needed below and is left out.
\<close>

text \<open>
  \<^verbatim>\<open>authenticate\<close>: \<open>next\<close> is the handler behind the middleware; it receives the
  \<^verbatim>\<open>req.userId\<close> that the middleware attaches.
\<close>

definition authenticate ::
  "(string \<Rightarrow> request \<Rightarrow> world \<Rightarrow> response \<times> world) \<Rightarrow> request \<Rightarrow> world \<Rightarrow> response \<times> world" where
  "authenticate next req w =
     (case authorization req of
        None \<Rightarrow> (\<lparr>status = 401, json = error_json ''Unauthorized''\<rparr>, w)
      | Some token \<Rightarrow>
          if token = [] then (\<lparr>status = 401, json = error_json ''Unauthorized''\<rparr>, w)
          else
            (case verifyIdToken token w of
               (None, w1) \<Rightarrow> (\<lparr>status = 401, json = error_json ''Invalid token''\<rparr>, w1)
             | (Some uid, w1) \<Rightarrow> next uid req w1))"

text \<open>\<^verbatim>\<open>app.post('/signup', ...)\<close>\<close>

definition post_signup :: "request \<Rightarrow> world \<Rightarrow> response \<times> world" where
  "post_signup req w =
     (let email = js_get (body req) ''email'';
          password = js_get (body req) ''password'';
          name = js_get (body req) ''name''
      in if \<not> truthy email \<or> \<not> truthy password
         then (\<lparr>status = 400, json = error_json ''Email and password required''\<rparr>, w)
         else
           (case createUser email password name w of
              (Inl msg, w1) \<Rightarrow> (\<lparr>status = 400, json = error_json msg\<rparr>, w1)
            | (Inr uid, w1) \<Rightarrow>
                (case users_doc_set uid [(''email'', email), (''name'', js_or name (JStr ''''))] w1 of
                   (Some msg, w2) \<Rightarrow> (\<lparr>status = 400, json = error_json msg\<rparr>, w2)
                 | (None, w2) \<Rightarrow>
                     (\<lparr>status = 201, json = message_json ''User created successfully''\<rparr>, w2))))"

text \<open>The handler of \<^verbatim>\<open>app.post('/todos', authenticate, ...)\<close>.\<close>

definition create_todo :: "string \<Rightarrow> request \<Rightarrow> world \<Rightarrow> response \<times> world" where
  "create_todo userId req w =
     (let title = js_get (body req) ''title'';
          description = js_get (body req) ''description'';
          dueDate = js_get (body req) ''dueDate''
      in if \<not> truthy title
         then (\<lparr>status = 400, json = error_json ''Title is required''\<rparr>, w)
         else
           (case Timestamp_now w of
              (createdAt, w1) \<Rightarrow>
                (case Timestamp_now w1 of
                   (updatedAt, w2) \<Rightarrow>
                     (let todo =
                            [(''userId'', JStr userId),
                             (''title'', title),
                             (''description'', js_or description (JStr '''')),
                             (''dueDate'', js_or dueDate JNull),
                             (''createdAt'', createdAt),
                             (''updatedAt'', updatedAt),
                             (''completed'', JBool False)]
                      in case todos_add todo w2 of
                           (Inl msg, w3) \<Rightarrow> (\<lparr>status = 500, json = error_json msg\<rparr>, w3)
                         | (Inr i, w3) \<Rightarrow>
                             (\<lparr>status = 201, json = JObj (spread [(''id'', JStr i)] todo)\<rparr>, w3)))))"

text \<open>The handler of \<^verbatim>\<open>app.get('/todos', authenticate, ...)\<close>.\<close>

definition list_todos :: "string \<Rightarrow> request \<Rightarrow> world \<Rightarrow> response \<times> world" where
  "list_todos userId req w =
     (case todos_where_get userId w of
        (Inl msg, w1) \<Rightarrow> (\<lparr>status = 500, json = error_json msg\<rparr>, w1)
      | (Inr docs, w1) \<Rightarrow>
          (\<lparr>status = 200,
            json = JArr (map (\<lambda>(i, d). JObj (spread [(''id'', JStr i)] d)) docs)\<rparr>, w1))"

text \<open>The handler of \<^verbatim>\<open>app.delete('/todos/:id', authenticate, ...)\<close>.\<close>

definition delete_todo :: "string \<Rightarrow> request \<Rightarrow> world \<Rightarrow> response \<times> world" where
  "delete_todo userId req w =
     (let i = param_id req
      in case todos_doc_get i w of
           (Inl msg, w1) \<Rightarrow> (\<lparr>status = 500, json = error_json msg\<rparr>, w1)
         | (Inr None, w1) \<Rightarrow>
             (\<lparr>status = 404, json = error_json ''Todo not found or unauthorized''\<rparr>, w1)
         | (Inr (Some d), w1) \<Rightarrow>
             if js_get d ''userId'' \<noteq> JStr userId
             then (\<lparr>status = 404, json = error_json ''Todo not found or unauthorized''\<rparr>, w1)
             else
               (case todos_doc_delete i w1 of
                  (Some msg, w2) \<Rightarrow> (\<lparr>status = 500, json = error_json msg\<rparr>, w2)
                | (None, w2) \<Rightarrow>
                    (\<lparr>status = 200, json = message_json ''Todo deleted successfully''\<rparr>, w2)))"

text \<open>The handler of \<^verbatim>\<open>app.patch('/todos/:id', authenticate, ...)\<close>.\<close>

definition update_todo :: "string \<Rightarrow> request \<Rightarrow> world \<Rightarrow> response \<times> world" where
  "update_todo userId req w =
     (let i = param_id req;
          completed = js_get (body req) ''completed''
      in case todos_doc_get i w of
           (Inl msg, w1) \<Rightarrow> (\<lparr>status = 500, json = error_json msg\<rparr>, w1)
         | (Inr None, w1) \<Rightarrow>
             (\<lparr>status = 404, json = error_json ''Todo not found or unauthorized''\<rparr>, w1)
         | (Inr (Some d), w1) \<Rightarrow>
             if js_get d ''userId'' \<noteq> JStr userId
             then (\<lparr>status = 404, json = error_json ''Todo not found or unauthorized''\<rparr>, w1)
             else
               (case Timestamp_now w1 of
                  (now, w2) \<Rightarrow>
                    (case todos_doc_update i [(''completed'', completed), (''updatedAt'', now)] w2 of
                       (Some msg, w3) \<Rightarrow> (\<lparr>status = 500, json = error_json msg\<rparr>, w3)
                     | (None, w3) \<Rightarrow>
                         (\<lparr>status = 200, json = message_json ''Todo updated successfully''\<rparr>, w3))))"

text \<open>The four protected routes: the middleware in front of each handler.\<close>

definition post_todos :: "request \<Rightarrow> world \<Rightarrow> response \<times> world" where
  "post_todos = authenticate create_todo"

definition get_todos :: "request \<Rightarrow> world \<Rightarrow> response \<times> world" where
  "get_todos = authenticate list_todos"

definition delete_todos_id :: "request \<Rightarrow> world \<Rightarrow> response \<times> world" where
  "delete_todos_id = authenticate delete_todo"

definition patch_todos_id :: "request \<Rightarrow> world \<Rightarrow> response \<times> world" where
  "patch_todos_id = authenticate update_todo"

section \<open>Environment assumptions and example data\<close>

text \<open>
  \<open>calls_succeed n w\<close>: none of the next \<open>n\<close> calls to \<^verbatim>\<open>createUser\<close> or to Firestore
  throws.
\<close>


definition calls_succeed :: "nat \<Rightarrow> world \<Rightarrow> bool" where
  "calls_succeed n w = (set (take n (faults w)) \<subseteq> {None})"

text \<open>
  A small world for concrete runs: two users with a todo each, a clock that advances by
  one millisecond per reading, no faults. Alice's token verifies as it is; Bob's verifies
  in the form his client sends it, prefix included.
\<close>

definition demo_world :: world where
  "demo_world =
     \<lparr>id_tokens = (\<lambda>t. if t = ''token-alice'' then Some ''alice''
                      else if t = ''Bearer token-bob'' then Some ''bob'' else None),
      accounts = [],
      users = [],
      todos =
        [(''t1'', [(''userId'', JStr ''alice''), (''title'', JStr ''Buy Groceries''),
                   (''description'', JStr ''Get milk and bread''), (''dueDate'', JStr ''2025-02-10''),
                   (''createdAt'', JTimestamp 500), (''updatedAt'', JTimestamp 500),
                   (''completed'', JBool False)]),
         (''t2'', [(''userId'', JStr ''bob''), (''title'', JStr ''Pay rent''),
                   (''description'', JStr ''''), (''dueDate'', JNull),
                   (''createdAt'', JTimestamp 700), (''updatedAt'', JTimestamp 700),
                   (''completed'', JBool False)])],
      faults = [],
      auto_ids = (\<lambda>n. ''doc'' @ replicate n CHR ''x''),
      ids_issued = 0,
      clock = (\<lambda>n. 1000 + n),
      clock_reads = 0,
      trace = []\<rparr>"

text \<open>The same world with a server clock that stands still.\<close>

definition frozen_clock_world :: world where
  "frozen_clock_world = demo_world\<lparr>clock := (\<lambda>n. 1000)\<rparr>"

text \<open>The 404 response of the delete and update handlers.\<close>

definition not_found :: response where
  "not_found = \<lparr>status = 404, json = error_json ''Todo not found or unauthorized''\<rparr>"

text \<open>
  A stored document is a JavaScript object, so no field occurs twice in it; the documents
  that the handlers write have no field named \<open>id\<close>.
\<close>

definition wf_document :: "obj \<Rightarrow> bool" where
  "wf_document d = (distinct (map fst d) \<and> map_of d ''id'' = None)"

definition wf_todos :: "world \<Rightarrow> bool" where
  "wf_todos w = (\<forall>(i, d) \<in> set (todos w). wf_document d)"


section \<open>Service calls that succeed\<close>

lemma calls_succeed_log [simp]: "calls_succeed n (log_call c w) = calls_succeed n w"
  by (simp add: calls_succeed_def log_call_def)

lemma sdk_outcome_ok:
  "calls_succeed n w \<Longrightarrow> 0 < n \<Longrightarrow> sdk_outcome w = (None, w\<lparr>faults := tl (faults w)\<rparr>)"
  by (cases n; cases "faults w") (auto simp: calls_succeed_def sdk_outcome_def)

lemma calls_succeed_tl:
  "calls_succeed n w \<Longrightarrow> faults w' = tl (faults w) \<Longrightarrow> calls_succeed (n - 1) w'"
  by (cases n; cases "faults w") (auto simp: calls_succeed_def)

lemma todos_doc_get_ok:
  "calls_succeed n w \<Longrightarrow> 0 < n \<Longrightarrow>
   todos_doc_get i w =
     (Inr (map_of (todos w) i), w\<lparr>trace := trace w @ [TodosGet i], faults := tl (faults w)\<rparr>)"
  using sdk_outcome_ok [of n "log_call (TodosGet i) w"]
  by (simp add: todos_doc_get_def) (simp add: log_call_def)

lemma todos_doc_delete_ok:
  "calls_succeed n w \<Longrightarrow> 0 < n \<Longrightarrow>
   todos_doc_delete i w =
     (None, w\<lparr>trace := trace w @ [TodosDelete i], faults := tl (faults w),
              todos := AList.delete i (todos w)\<rparr>)"
  using sdk_outcome_ok [of n "log_call (TodosDelete i) w"]
  by (simp add: todos_doc_delete_def) (simp add: log_call_def)

lemma authenticate_ok:
  "authorization req = Some token \<Longrightarrow> token \<noteq> [] \<Longrightarrow> id_tokens w token = Some uid \<Longrightarrow>
   authenticate next req w = next uid req (log_call (VerifyIdToken token) w)"
  by (simp add: authenticate_def verifyIdToken_def)

lemma log_call_sel [simp]:
  "todos (log_call c w) = todos w" "users (log_call c w) = users w"
  "accounts (log_call c w) = accounts w" "faults (log_call c w) = faults w"
  "clock (log_call c w) = clock w" "clock_reads (log_call c w) = clock_reads w"
  "auto_ids (log_call c w) = auto_ids w" "ids_issued (log_call c w) = ids_issued w"
  "id_tokens (log_call c w) = id_tokens w" "trace (log_call c w) = trace w @ [c]"
  by (simp_all add: log_call_def)

lemma delete_todo_missing:
  assumes "calls_succeed n w" "0 < n"
    and "map_of (todos w) (param_id req) = None"
  shows "delete_todo uid req w =
    (not_found, w\<lparr>trace := trace w @ [TodosGet (param_id req)], faults := tl (faults w)\<rparr>)"
  using assms todos_doc_get_ok [of n w "param_id req"]
  by (simp add: delete_todo_def not_found_def Let_def)

lemma delete_todo_foreign:
  assumes "calls_succeed n w" "0 < n"
    and "map_of (todos w) (param_id req) = Some d" "js_get d ''userId'' \<noteq> JStr uid"
  shows "delete_todo uid req w =
    (not_found, w\<lparr>trace := trace w @ [TodosGet (param_id req)], faults := tl (faults w)\<rparr>)"
  using assms todos_doc_get_ok [of n w "param_id req"]
  by (simp add: delete_todo_def not_found_def Let_def)

lemma delete_todo_owned:
  assumes "calls_succeed 2 w"
    and "map_of (todos w) (param_id req) = Some d" "js_get d ''userId'' = JStr uid"
  shows "delete_todo uid req w =
    (\<lparr>status = 200, json = message_json ''Todo deleted successfully''\<rparr>,
     w\<lparr>trace := trace w @ [TodosGet (param_id req), TodosDelete (param_id req)],
       faults := tl (tl (faults w)),
       todos := AList.delete (param_id req) (todos w)\<rparr>)"
proof -
  let ?i = "param_id req"
  let ?w1 = "w\<lparr>trace := trace w @ [TodosGet ?i], faults := tl (faults w)\<rparr>"
  have g: "todos_doc_get ?i w = (Inr (Some d), ?w1)"
    using assms todos_doc_get_ok [of 2 w ?i] by simp
  have "calls_succeed 1 ?w1"
    using calls_succeed_tl [OF assms(1), of ?w1] by simp
  then have "todos_doc_delete ?i ?w1 =
      (None, ?w1\<lparr>trace := trace ?w1 @ [TodosDelete ?i], faults := tl (faults ?w1),
                 todos := AList.delete ?i (todos ?w1)\<rparr>)"
    by (rule todos_doc_delete_ok) simp
  with g assms show ?thesis by (simp add: delete_todo_def Let_def)
qed

lemma update_todo_missing:
  assumes "calls_succeed n w" "0 < n"
    and "map_of (todos w) (param_id req) = None"
  shows "update_todo uid req w =
    (not_found, w\<lparr>trace := trace w @ [TodosGet (param_id req)], faults := tl (faults w)\<rparr>)"
  using assms todos_doc_get_ok [of n w "param_id req"]
  by (simp add: update_todo_def not_found_def Let_def)

lemma update_todo_foreign:
  assumes "calls_succeed n w" "0 < n"
    and "map_of (todos w) (param_id req) = Some d" "js_get d ''userId'' \<noteq> JStr uid"
  shows "update_todo uid req w =
    (not_found, w\<lparr>trace := trace w @ [TodosGet (param_id req)], faults := tl (faults w)\<rparr>)"
  using assms todos_doc_get_ok [of n w "param_id req"]
  by (simp add: update_todo_def not_found_def Let_def)

lemma delete_todo_not_owned_store:
  assumes "map_of (todos w) (param_id req) = None \<or>
       (\<exists>d. map_of (todos w) (param_id req) = Some d \<and> js_get d ''userId'' \<noteq> JStr uid)"
  shows "todos (snd (delete_todo uid req w)) = todos w \<and>
         users (snd (delete_todo uid req w)) = users w \<and>
         accounts (snd (delete_todo uid req w)) = accounts w"
  using assms
  by (auto simp: delete_todo_def Let_def todos_doc_get_def sdk_outcome_def log_call_def
      split: list.splits option.splits)

lemma update_todo_not_owned_store:
  assumes "map_of (todos w) (param_id req) = None \<or>
       (\<exists>d. map_of (todos w) (param_id req) = Some d \<and> js_get d ''userId'' \<noteq> JStr uid)"
  shows "todos (snd (update_todo uid req w)) = todos w \<and>
         users (snd (update_todo uid req w)) = users w \<and>
         accounts (snd (update_todo uid req w)) = accounts w"
  using assms
  by (auto simp: update_todo_def Let_def todos_doc_get_def sdk_outcome_def log_call_def
      split: list.splits option.splits)

section \<open>Ownership check of delete and update\<close>

text \<open>
  Claim C1. A delete-todo or update-todo request by an authenticated caller whose target
  does not exist, or is a record of another user, gets the same 404 response in both
  cases, and the stored records (and users and accounts) stay as they were. A delete-todo
  request for a record of the caller answers 200 with a confirmation message and removes
  that record and no other. The responses are those of a store whose calls do not throw
  (the reading of the record and, for the deletion, the deletion itself); that the store
  stays as it was for a missing or foreign record holds whether they throw or not.
\<close>

theorem mutation_requires_ownership:
  assumes "authorization req = Some token" and "token \<noteq> []" and "id_tokens w token = Some uid"
  shows
    "((map_of (todos w) (param_id req) = None \<or>
       (\<exists>d. map_of (todos w) (param_id req) = Some d \<and> js_get d ''userId'' \<noteq> JStr uid)) \<longrightarrow>
        (calls_succeed 1 w \<longrightarrow>
           fst (delete_todos_id req w) = not_found \<and>
           fst (patch_todos_id req w) = not_found) \<and>
        todos (snd (delete_todos_id req w)) = todos w \<and>
        todos (snd (patch_todos_id req w)) = todos w \<and>
        users (snd (delete_todos_id req w)) = users w \<and>
        users (snd (patch_todos_id req w)) = users w \<and>
        accounts (snd (delete_todos_id req w)) = accounts w \<and>
        accounts (snd (patch_todos_id req w)) = accounts w) \<and>
     ((\<exists>d. map_of (todos w) (param_id req) = Some d \<and> js_get d ''userId'' = JStr uid) \<and>
      calls_succeed 2 w \<longrightarrow>
        fst (delete_todos_id req w) =
          \<lparr>status = 200, json = message_json ''Todo deleted successfully''\<rparr> \<and>
        todos (snd (delete_todos_id req w)) = AList.delete (param_id req) (todos w) \<and>
        map_of (todos (snd (delete_todos_id req w))) = (map_of (todos w))(param_id req := None) \<and>
        users (snd (delete_todos_id req w)) = users w \<and>
        accounts (snd (delete_todos_id req w)) = accounts w)"
proof -
  let ?w0 = "log_call (VerifyIdToken token) w"
  have del: "delete_todos_id req w = delete_todo uid req ?w0"
    and upd: "patch_todos_id req w = update_todo uid req ?w0"
    using assms by (simp_all add: delete_todos_id_def patch_todos_id_def authenticate_ok)
  have same: "todos (snd (delete_todos_id req w)) = todos w \<and>
        todos (snd (patch_todos_id req w)) = todos w \<and>
        users (snd (delete_todos_id req w)) = users w \<and>
        users (snd (patch_todos_id req w)) = users w \<and>
        accounts (snd (delete_todos_id req w)) = accounts w \<and>
        accounts (snd (patch_todos_id req w)) = accounts w"
    if "map_of (todos w) (param_id req) = None \<or>
       (\<exists>d. map_of (todos w) (param_id req) = Some d \<and> js_get d ''userId'' \<noteq> JStr uid)"
    using that delete_todo_not_owned_store [of ?w0 req uid]
      update_todo_not_owned_store [of ?w0 req uid]
    by (simp add: del upd)
  have fail: "fst (delete_todos_id req w) = not_found \<and>
        fst (patch_todos_id req w) = not_found"
    if c: "calls_succeed 1 w"
      and m: "map_of (todos w) (param_id req) = None \<or>
       (\<exists>d. map_of (todos w) (param_id req) = Some d \<and> js_get d ''userId'' \<noteq> JStr uid)"
  proof -
    from m show ?thesis
    proof
      assume "map_of (todos w) (param_id req) = None"
      then show ?thesis
        using c delete_todo_missing [of 1 ?w0 req uid] update_todo_missing [of 1 ?w0 req uid]
        by (simp add: del upd)
    next
      assume "\<exists>d. map_of (todos w) (param_id req) = Some d \<and> js_get d ''userId'' \<noteq> JStr uid"
      then obtain d where "map_of (todos w) (param_id req) = Some d" "js_get d ''userId'' \<noteq> JStr uid"
        by blast
      then show ?thesis
        using c delete_todo_foreign [of 1 ?w0 req d uid] update_todo_foreign [of 1 ?w0 req d uid]
        by (simp add: del upd)
    qed
  qed
  have ok: "fst (delete_todos_id req w) =
          \<lparr>status = 200, json = message_json ''Todo deleted successfully''\<rparr> \<and>
        todos (snd (delete_todos_id req w)) = AList.delete (param_id req) (todos w) \<and>
        map_of (todos (snd (delete_todos_id req w))) = (map_of (todos w))(param_id req := None) \<and>
        users (snd (delete_todos_id req w)) = users w \<and>
        accounts (snd (delete_todos_id req w)) = accounts w"
    if c: "calls_succeed 2 w"
      and m: "\<exists>d. map_of (todos w) (param_id req) = Some d \<and> js_get d ''userId'' = JStr uid"
  proof -
    from m obtain d where "map_of (todos w) (param_id req) = Some d" "js_get d ''userId'' = JStr uid"
      by blast
    then show ?thesis
      using c delete_todo_owned [of ?w0 req d uid]
      by (simp add: del delete_conv')
  qed
  from same fail ok show ?thesis by blast
qed


text \<open>
  Alice deletes a todo that does not exist, then deletes and updates Bob's todo, then
  deletes her own.
\<close>

theorem mutation_requires_ownership_witness:
  "fst (delete_todos_id \<lparr>authorization = Some ''token-alice'', body = [], param_id = ''t9''\<rparr> demo_world) = not_found \<and>
   fst (delete_todos_id \<lparr>authorization = Some ''token-alice'', body = [], param_id = ''t2''\<rparr> demo_world) = not_found \<and>
   fst (patch_todos_id \<lparr>authorization = Some ''token-alice'', body = [(''completed'', JBool True)], param_id = ''t2''\<rparr> demo_world) = not_found \<and>
   todos (snd (patch_todos_id \<lparr>authorization = Some ''token-alice'', body = [(''completed'', JBool True)], param_id = ''t2''\<rparr> demo_world)) = todos demo_world \<and>
   status (fst (delete_todos_id \<lparr>authorization = Some ''token-alice'', body = [], param_id = ''t1''\<rparr> demo_world)) = 200 \<and>
   map fst (todos (snd (delete_todos_id \<lparr>authorization = Some ''token-alice'', body = [], param_id = ''t1''\<rparr> demo_world))) = [''t2'']"
  using
    mutation_requires_ownership [of "\<lparr>authorization = Some ''token-alice'', body = [], param_id = ''t9''\<rparr>" "''token-alice''" demo_world "''alice''"]
    mutation_requires_ownership [of "\<lparr>authorization = Some ''token-alice'', body = [], param_id = ''t2''\<rparr>" "''token-alice''" demo_world "''alice''"]
    mutation_requires_ownership [of "\<lparr>authorization = Some ''token-alice'', body = [(''completed'', JBool True)], param_id = ''t2''\<rparr>" "''token-alice''" demo_world "''alice''"]
    mutation_requires_ownership [of "\<lparr>authorization = Some ''token-alice'', body = [], param_id = ''t1''\<rparr>" "''token-alice''" demo_world "''alice''"]
  by (simp add: demo_world_def calls_succeed_def js_get_def)

lemma truthy_defined: "truthy v \<Longrightarrow> v \<noteq> JUndefined"
  by auto

lemma js_or_defined: "b \<noteq> JUndefined \<Longrightarrow> js_or a b \<noteq> JUndefined"
  by (auto simp: js_or_def)

lemma js_or_truthy: "truthy a \<Longrightarrow> js_or a b = a"
  by (simp add: js_or_def)

lemma js_or_string: "js_or (JStr s) (JStr []) = JStr s"
  by (simp add: js_or_def)

section \<open>The authentication middleware\<close>

text \<open>
  Claim C2, amended. Every protected route is \<open>authenticate\<close> in front of its handler
  (\<open>next\<close> below). When the Authorization header is absent, or present with an empty
  value, the response is 401 \<^verbatim>\<open>Unauthorized\<close> and the world is untouched: nothing is sent
  to the Identity Provider and nothing is read or written. When the header has a
  non-empty value, that value as it stands is the token given to \<^verbatim>\<open>verifyIdToken\<close>; when
  the verification fails the response is 401 \<^verbatim>\<open>Invalid token\<close>, and when it succeeds the
  handler runs with the verified user id.
\<close>

theorem authenticate_contract:
  "((authorization req = None \<or> authorization req = Some []) \<longrightarrow>
      authenticate next req w = (\<lparr>status = 401, json = error_json ''Unauthorized''\<rparr>, w)) \<and>
   (\<forall>token. authorization req = Some token \<and> token \<noteq> [] \<longrightarrow>
      trace (snd (verifyIdToken token w)) = trace w @ [VerifyIdToken token] \<and>
      (id_tokens w token = None \<longrightarrow>
         authenticate next req w =
           (\<lparr>status = 401, json = error_json ''Invalid token''\<rparr>, snd (verifyIdToken token w))) \<and>
      (\<forall>uid. id_tokens w token = Some uid \<longrightarrow>
         authenticate next req w = next uid req (snd (verifyIdToken token w))))"
  by (auto simp: authenticate_def verifyIdToken_def)

text \<open>
  No header on the list route; a token that does not verify on the update route; a header
  with a \<^verbatim>\<open>Bearer\<close> prefix, which is handed over with the prefix, on the delete route.
\<close>

theorem authenticate_contract_witness:
  "get_todos \<lparr>authorization = None, body = [], param_id = ''''\<rparr> demo_world =
     (\<lparr>status = 401, json = error_json ''Unauthorized''\<rparr>, demo_world) \<and>
   patch_todos_id \<lparr>authorization = Some ''token-bob'', body = [], param_id = ''t2''\<rparr> demo_world =
     (\<lparr>status = 401, json = error_json ''Invalid token''\<rparr>,
      demo_world\<lparr>trace := [VerifyIdToken ''token-bob'']\<rparr>) \<and>
   delete_todos_id \<lparr>authorization = Some ''Bearer token-bob'', body = [], param_id = ''t2''\<rparr> demo_world =
     delete_todo ''bob'' \<lparr>authorization = Some ''Bearer token-bob'', body = [], param_id = ''t2''\<rparr>
       (demo_world\<lparr>trace := [VerifyIdToken ''Bearer token-bob'']\<rparr>)"
  using
    authenticate_contract [of "\<lparr>authorization = None, body = [], param_id = ''''\<rparr>" list_todos demo_world]
    authenticate_contract [of "\<lparr>authorization = Some ''token-bob'', body = [], param_id = ''t2''\<rparr>" update_todo demo_world]
    authenticate_contract [of "\<lparr>authorization = Some ''Bearer token-bob'', body = [], param_id = ''t2''\<rparr>" delete_todo demo_world]
  by (simp add: get_todos_def patch_todos_id_def delete_todos_id_def verifyIdToken_def log_call_def demo_world_def)

text \<open>
  Claim C2 as stated fails for a header that is present and empty: the request is answered
  401 \<^verbatim>\<open>Unauthorized\<close>, not \<^verbatim>\<open>Invalid token\<close>, and the trace stays empty, so the
  header's value never reaches \<^verbatim>\<open>verifyIdToken\<close>.
\<close>

theorem empty_authorization_header_counterexample:
  "authorization \<lparr>authorization = Some '''', body = [], param_id = ''''\<rparr> = Some '''' \<and>
   get_todos \<lparr>authorization = Some '''', body = [], param_id = ''''\<rparr> demo_world =
     (\<lparr>status = 401, json = error_json ''Unauthorized''\<rparr>, demo_world) \<and>
   trace demo_world = [] \<and>
   error_json ''Unauthorized'' \<noteq> error_json ''Invalid token''"
  by (simp add: get_todos_def authenticate_def demo_world_def error_json_def)

section \<open>Signup validation\<close>

text \<open>
  Claim C5. A signup request whose email or password is missing or the empty string is
  answered 400 \<^verbatim>\<open>Email and password required\<close>, and the world stays exactly as it was: no
  account is created at the Identity Provider, no document is written to the
  \<^verbatim>\<open>users\<close> collection, and no service is called.
\<close>

theorem signup_requires_email_and_password:
  "js_get (body req) ''email'' \<in> {JUndefined, JStr ''''} \<or>
   js_get (body req) ''password'' \<in> {JUndefined, JStr ''''} \<Longrightarrow>
   post_signup req w = (\<lparr>status = 400, json = error_json ''Email and password required''\<rparr>, w)"
  by (auto simp: post_signup_def Let_def)

text \<open>A signup without a password, and one with an empty email.\<close>

theorem signup_requires_email_and_password_witness:
  "post_signup \<lparr>authorization = None, body = [(''email'', JStr ''a@x.com''), (''name'', JStr ''A'')], param_id = ''''\<rparr> demo_world =
     (\<lparr>status = 400, json = error_json ''Email and password required''\<rparr>, demo_world) \<and>
   post_signup \<lparr>authorization = None, body = [(''email'', JStr ''''), (''password'', JStr ''p1'')], param_id = ''''\<rparr> demo_world =
     (\<lparr>status = 400, json = error_json ''Email and password required''\<rparr>, demo_world)"
  using
    signup_requires_email_and_password [of "\<lparr>authorization = None, body = [(''email'', JStr ''a@x.com''), (''name'', JStr ''A'')], param_id = ''''\<rparr>" demo_world]
    signup_requires_email_and_password [of "\<lparr>authorization = None, body = [(''email'', JStr ''''), (''password'', JStr ''p1'')], param_id = ''''\<rparr>" demo_world]
  by (simp add: js_get_def)

lemma todos_add_ok:
  assumes "calls_succeed n w" "0 < n" "map_of (todos w) (auto_ids w (ids_issued w)) = None"
    and "\<not> has_undefined data"
  shows "todos_add data w =
     (Inr (auto_ids w (ids_issued w)),
      w\<lparr>trace := trace w @ [TodosAdd data], faults := tl (faults w),
        ids_issued := Suc (ids_issued w),
        todos := todos w @ [(auto_ids w (ids_issued w), data)]\<rparr>)"
  using assms sdk_outcome_ok [of n "log_call (TodosAdd data) w"]
  by (simp add: todos_add_def new_id_def)

lemma create_todo_no_title:
  "\<not> truthy (js_get (body req) ''title'') \<Longrightarrow>
   create_todo uid req w = (\<lparr>status = 400, json = error_json ''Title is required''\<rparr>, w)"
  by (simp add: create_todo_def Let_def)

lemma create_todo_ok:
  assumes "truthy (js_get (body req) ''title'')"
    and "calls_succeed n w" "0 < n"
    and "map_of (todos w) (auto_ids w (ids_issued w)) = None"
  shows "create_todo uid req w =
    (\<lparr>status = 201,
      json = JObj
        [(''id'', JStr (auto_ids w (ids_issued w))),
         (''userId'', JStr uid),
         (''title'', js_get (body req) ''title''),
         (''description'', js_or (js_get (body req) ''description'') (JStr '''')),
         (''dueDate'', js_or (js_get (body req) ''dueDate'') JNull),
         (''createdAt'', JTimestamp (clock w (clock_reads w))),
         (''updatedAt'', JTimestamp (clock w (Suc (clock_reads w)))),
         (''completed'', JBool False)]\<rparr>,
     w\<lparr>clock_reads := Suc (Suc (clock_reads w)),
       trace := trace w @
         [TodosAdd
           [(''userId'', JStr uid),
            (''title'', js_get (body req) ''title''),
            (''description'', js_or (js_get (body req) ''description'') (JStr '''')),
            (''dueDate'', js_or (js_get (body req) ''dueDate'') JNull),
            (''createdAt'', JTimestamp (clock w (clock_reads w))),
            (''updatedAt'', JTimestamp (clock w (Suc (clock_reads w)))),
            (''completed'', JBool False)]],
       faults := tl (faults w),
       ids_issued := Suc (ids_issued w),
       todos := todos w @
         [(auto_ids w (ids_issued w),
           [(''userId'', JStr uid),
            (''title'', js_get (body req) ''title''),
            (''description'', js_or (js_get (body req) ''description'') (JStr '''')),
            (''dueDate'', js_or (js_get (body req) ''dueDate'') JNull),
            (''createdAt'', JTimestamp (clock w (clock_reads w))),
            (''updatedAt'', JTimestamp (clock w (Suc (clock_reads w)))),
            (''completed'', JBool False)])]\<rparr>)"
proof -
  let ?w2 = "w\<lparr>clock_reads := Suc (Suc (clock_reads w))\<rparr>"
  let ?todo = "[(''userId'', JStr uid),
            (''title'', js_get (body req) ''title''),
            (''description'', js_or (js_get (body req) ''description'') (JStr '''')),
            (''dueDate'', js_or (js_get (body req) ''dueDate'') JNull),
            (''createdAt'', JTimestamp (clock w (clock_reads w))),
            (''updatedAt'', JTimestamp (clock w (Suc (clock_reads w)))),
            (''completed'', JBool False)]"
  have c: "calls_succeed n ?w2" using assms(2) by (simp add: calls_succeed_def)
  have f: "\<not> has_undefined ?todo"
    using truthy_defined [OF assms(1)]
    by (simp add: has_undefined_def js_or_defined)
  have a: "todos_add ?todo ?w2 =
     (Inr (auto_ids w (ids_issued w)),
      ?w2\<lparr>trace := trace w @ [TodosAdd ?todo], faults := tl (faults w),
        ids_issued := Suc (ids_issued w),
        todos := todos w @ [(auto_ids w (ids_issued w), ?todo)]\<rparr>)"
    using todos_add_ok [OF c assms(3), of ?todo] assms(4) by (simp add: f)
  have s: "spread [(''id'', JStr (auto_ids w (ids_issued w)))] ?todo =
      (''id'', JStr (auto_ids w (ids_issued w))) # ?todo"
    by (simp add: spread_def)
  show ?thesis
    using assms(1) by (simp add: create_todo_def Let_def Timestamp_now_def a s)
qed

lemma create_todo_201:
  assumes "status (fst (create_todo uid req w)) = 201"
  shows "truthy (js_get (body req) ''title'') \<and> calls_succeed 1 w \<and>
         map_of (todos w) (auto_ids w (ids_issued w)) = None"
  using assms
  by (auto simp: create_todo_def Let_def Timestamp_now_def todos_add_def sdk_outcome_def
      new_id_def log_call_def calls_succeed_def split: if_splits option.splits list.splits)

lemma authenticate_not_401:
  assumes "status (fst (authenticate next req w)) \<noteq> 401"
  shows "\<exists>token uid. authorization req = Some token \<and> token \<noteq> [] \<and> id_tokens w token = Some uid"
  using assms
  by (auto simp: authenticate_def verifyIdToken_def split: option.splits if_splits)

lemma post_todos_201:
  assumes "status (fst (post_todos req w)) = 201"
  obtains token uid where
    "authorization req = Some token" "token \<noteq> []" "id_tokens w token = Some uid"
    "truthy (js_get (body req) ''title'')" "calls_succeed 1 w"
    "map_of (todos w) (auto_ids w (ids_issued w)) = None"
    "post_todos req w = create_todo uid req (log_call (VerifyIdToken token) w)"
proof -
  from assms have "status (fst (authenticate create_todo req w)) \<noteq> 401"
    by (simp add: post_todos_def)
  then obtain token uid where a:
    "authorization req = Some token" "token \<noteq> []" "id_tokens w token = Some uid"
    using authenticate_not_401 by blast
  then have p: "post_todos req w = create_todo uid req (log_call (VerifyIdToken token) w)"
    by (simp add: post_todos_def authenticate_ok)
  with assms create_todo_201 [of uid req "log_call (VerifyIdToken token) w"]
  have "truthy (js_get (body req) ''title'')" "calls_succeed 1 w"
    "map_of (todos w) (auto_ids w (ids_issued w)) = None"
    by simp_all
  with a p that show thesis by blast
qed

section \<open>Creating a todo\<close>

text \<open>
  Claim C4, amended. For an authenticated create-todo request: when the title is missing
  or falsy (the empty string, \<^verbatim>\<open>null\<close>, \<^verbatim>\<open>false\<close>, \<^verbatim>\<open>0\<close>), the response is 400
  \<^verbatim>\<open>Title is required\<close>, the stored todos are unchanged and no call reaches the store;
  otherwise, when the insertion does not throw and the store assigns an unused
  identifier, a record is appended with \<open>userId\<close> the caller's id, the given title, the
  description (the empty string when none is given), \<open>completed\<close> false and
  \<open>createdAt\<close> and \<open>updatedAt\<close> the two readings of the server clock, and the response is
  201 with the assigned id in front of those fields.
\<close>

theorem create_todo_contract:
  assumes "authorization req = Some token" and "token \<noteq> []" and "id_tokens w token = Some uid"
  shows
    "(\<not> truthy (js_get (body req) ''title'') \<longrightarrow>
        fst (post_todos req w) = \<lparr>status = 400, json = error_json ''Title is required''\<rparr> \<and>
        todos (snd (post_todos req w)) = todos w \<and>
        trace (snd (post_todos req w)) = trace w @ [VerifyIdToken token]) \<and>
     (truthy (js_get (body req) ''title'') \<and> calls_succeed 1 w \<and>
      map_of (todos w) (auto_ids w (ids_issued w)) = None \<longrightarrow>
        fst (post_todos req w) =
          \<lparr>status = 201,
            json = JObj
              [(''id'', JStr (auto_ids w (ids_issued w))),
               (''userId'', JStr uid),
               (''title'', js_get (body req) ''title''),
               (''description'', js_or (js_get (body req) ''description'') (JStr [])),
               (''dueDate'', js_or (js_get (body req) ''dueDate'') JNull),
               (''createdAt'', JTimestamp (clock w (clock_reads w))),
               (''updatedAt'', JTimestamp (clock w (Suc (clock_reads w)))),
               (''completed'', JBool False)]\<rparr> \<and>
        todos (snd (post_todos req w)) =
          todos w @
            [(auto_ids w (ids_issued w),
              [(''userId'', JStr uid),
               (''title'', js_get (body req) ''title''),
               (''description'', js_or (js_get (body req) ''description'') (JStr [])),
               (''dueDate'', js_or (js_get (body req) ''dueDate'') JNull),
               (''createdAt'', JTimestamp (clock w (clock_reads w))),
               (''updatedAt'', JTimestamp (clock w (Suc (clock_reads w)))),
               (''completed'', JBool False)])])"
proof -
  let ?w0 = "log_call (VerifyIdToken token) w"
  have p: "post_todos req w = create_todo uid req ?w0"
    using assms by (simp add: post_todos_def authenticate_ok)
  show ?thesis
    using create_todo_no_title [of req uid ?w0] create_todo_ok [of req 1 ?w0 uid]
    by (simp add: p)
qed

text \<open>Alice sends a body without a title, then one with the title \<^verbatim>\<open>T\<close>.\<close>

theorem create_todo_contract_witness:
  "fst (post_todos \<lparr>authorization = Some ''token-alice'', body = [(''description'', JStr ''no title'')], param_id = []\<rparr> demo_world) =
     \<lparr>status = 400, json = error_json ''Title is required''\<rparr> \<and>
   todos (snd (post_todos \<lparr>authorization = Some ''token-alice'', body = [(''description'', JStr ''no title'')], param_id = []\<rparr> demo_world)) =
     todos demo_world \<and>
   fst (post_todos \<lparr>authorization = Some ''token-alice'', body = [(''title'', JStr ''T'')], param_id = []\<rparr> demo_world) =
     \<lparr>status = 201,
       json = JObj
         [(''id'', JStr ''doc''), (''userId'', JStr ''alice''), (''title'', JStr ''T''),
          (''description'', JStr []), (''dueDate'', JNull),
          (''createdAt'', JTimestamp 1000), (''updatedAt'', JTimestamp 1001),
          (''completed'', JBool False)]\<rparr> \<and>
   map fst (todos (snd (post_todos \<lparr>authorization = Some ''token-alice'', body = [(''title'', JStr ''T'')], param_id = []\<rparr> demo_world))) =
     [''t1'', ''t2'', ''doc'']"
  using
    create_todo_contract [of "\<lparr>authorization = Some ''token-alice'', body = [(''description'', JStr ''no title'')], param_id = []\<rparr>" "''token-alice''" demo_world "''alice''"]
    create_todo_contract [of "\<lparr>authorization = Some ''token-alice'', body = [(''title'', JStr ''T'')], param_id = []\<rparr>" "''token-alice''" demo_world "''alice''"]
  by (simp add: demo_world_def calls_succeed_def js_get_def js_or_def)

text \<open>
  Claim C4 as stated fails for a title that is present and empty: the request is answered
  400 and nothing is persisted.
\<close>

theorem create_todo_empty_title_counterexample:
  "map_of (body \<lparr>authorization = Some ''token-alice'', body = [(''title'', JStr [])], param_id = []\<rparr>) ''title'' = Some (JStr []) \<and>
   fst (post_todos \<lparr>authorization = Some ''token-alice'', body = [(''title'', JStr [])], param_id = []\<rparr> demo_world) =
     \<lparr>status = 400, json = error_json ''Title is required''\<rparr> \<and>
   todos (snd (post_todos \<lparr>authorization = Some ''token-alice'', body = [(''title'', JStr [])], param_id = []\<rparr> demo_world)) =
     todos demo_world"
  by (simp add: post_todos_def authenticate_def verifyIdToken_def create_todo_def js_get_def
      demo_world_def log_call_def)

text \<open>
  Claim C6, amended. A create-todo request that omits \<open>dueDate\<close> and succeeds persists a
  record whose \<open>dueDate\<close> field is present with the value \<^verbatim>\<open>null\<close>; the response carries
  the same field.
\<close>

theorem create_todo_without_dueDate:
  assumes "status (fst (post_todos req w)) = 201"
    and "js_get (body req) ''dueDate'' = JUndefined"
  shows "\<exists>i d. todos (snd (post_todos req w)) = todos w @ [(i, d)] \<and>
               map_of d ''dueDate'' = Some JNull \<and>
               map_of (todos (snd (post_todos req w))) i = Some d \<and>
               (\<exists>r. json (fst (post_todos req w)) = JObj r \<and> map_of r ''dueDate'' = Some JNull)"
proof -
  from assms(1) obtain token uid where h:
    "truthy (js_get (body req) ''title'')" "calls_succeed 1 w"
    "map_of (todos w) (auto_ids w (ids_issued w)) = None"
    "post_todos req w = create_todo uid req (log_call (VerifyIdToken token) w)"
    by (rule post_todos_201)
  have n: "js_or JUndefined JNull = JNull"
    by (simp add: js_or_def)
  show ?thesis
    using h(1-3) create_todo_ok [of req 1 "log_call (VerifyIdToken token) w" uid]
    by (simp add: h(4) assms(2) n map_add_def)
qed

text \<open>Alice creates a todo from a body that has a title only.\<close>

theorem create_todo_without_dueDate_witness:
  "status (fst (post_todos \<lparr>authorization = Some ''token-alice'', body = [(''title'', JStr ''T'')], param_id = []\<rparr> demo_world)) = 201 \<and>
   (\<exists>i d. todos (snd (post_todos \<lparr>authorization = Some ''token-alice'', body = [(''title'', JStr ''T'')], param_id = []\<rparr> demo_world)) = todos demo_world @ [(i, d)] \<and>
               map_of d ''dueDate'' = Some JNull)"
proof -
  have s: "status (fst (post_todos \<lparr>authorization = Some ''token-alice'', body = [(''title'', JStr ''T'')], param_id = []\<rparr> demo_world)) = 201"
    by (simp add: post_todos_def authenticate_def verifyIdToken_def create_todo_def js_get_def
      demo_world_def log_call_def Timestamp_now_def todos_add_def sdk_outcome_def new_id_def Let_def
      has_undefined_def js_or_def)
  have u: "js_get (body \<lparr>authorization = Some ''token-alice'', body = [(''title'', JStr ''T'')], param_id = []\<rparr>) ''dueDate'' = JUndefined"
    by (simp add: js_get_def)
  from create_todo_without_dueDate [OF s u] s show ?thesis by blast
qed

text \<open>
  Claim C6 as stated fails: the body has no \<open>dueDate\<close>, and the document stored under the
  new identifier has a \<open>dueDate\<close> field, holding \<^verbatim>\<open>null\<close>.
\<close>

theorem create_todo_stores_null_dueDate_counterexample:
  "map_of (body \<lparr>authorization = Some ''token-alice'', body = [(''title'', JStr ''T'')], param_id = []\<rparr>) ''dueDate'' = None \<and>
   map_of (todos (snd (post_todos \<lparr>authorization = Some ''token-alice'', body = [(''title'', JStr ''T'')], param_id = []\<rparr> demo_world))) ''doc'' =
     Some [(''userId'', JStr ''alice''), (''title'', JStr ''T''),
          (''description'', JStr []), (''dueDate'', JNull),
          (''createdAt'', JTimestamp 1000), (''updatedAt'', JTimestamp 1001),
          (''completed'', JBool False)]"
  by (simp add: post_todos_def authenticate_def verifyIdToken_def create_todo_def js_get_def js_or_def
      demo_world_def log_call_def Timestamp_now_def todos_add_def sdk_outcome_def new_id_def has_undefined_def Let_def)

lemma map_of_spread_other:
  "k \<notin> fst ` set extra \<Longrightarrow> map_of (spread base extra) k = map_of base k"
  unfolding spread_def
  by (induction extra arbitrary: base) (auto simp: update_conv')

lemma map_of_spread_distinct:
  "distinct (map fst extra) \<Longrightarrow> map_of (spread base extra) = map_of base ++ map_of extra"
  unfolding spread_def
proof (induction extra arbitrary: base)
  case Nil
  then show ?case by simp
next
  case (Cons p extra)
  obtain k v where p: "p = (k, v)" by (cases p)
  from Cons.prems have d: "distinct (map fst extra)" and n: "k \<notin> fst ` set extra"
    by (auto simp: p)
  from n have e: "map_of extra k = None"
    by (simp add: map_of_eq_None_iff)
  have "map_of (fold (\<lambda>(k, v). AList.update k v) (p # extra) base) =
        map_of (AList.update k v base) ++ map_of extra"
    using Cons.IH [OF d, of "AList.update k v base"] by (simp add: p)
  also have "\<dots> = (map_of base)(k \<mapsto> v) ++ map_of extra"
    by (simp only: update_conv')
  also have "\<dots> = map_of base ++ map_of (p # extra)"
  proof
    fix x
    show "((map_of base)(k \<mapsto> v) ++ map_of extra) x = (map_of base ++ map_of (p # extra)) x"
      using e by (cases "x = k") (auto simp: p map_add_def split: option.splits)
  qed
  finally show ?case .
qed

lemma map_of_map_doc:
  "map_of (map (\<lambda>(j, d). if j = i then (j, f d) else (j, d)) xs) k =
     (if k = i then map_option f (map_of xs k) else map_of xs k)"
  by (induction xs) auto

lemma map_fst_map_doc:
  "map fst (map (\<lambda>(j, d). if j = i then (j, f d) else (j, d)) xs) = map fst xs"
  by (induction xs) auto

lemma todos_doc_update_ok:
  assumes "calls_succeed n w" "0 < n" "map_of (todos w) i = Some d0" "\<not> has_undefined data"
  shows "todos_doc_update i data w =
     (None,
      w\<lparr>trace := trace w @ [TodosUpdate i data], faults := tl (faults w),
        todos := map (\<lambda>(j, d). if j = i then (j, spread d data) else (j, d)) (todos w)\<rparr>)"
  using assms sdk_outcome_ok [of n "log_call (TodosUpdate i data) w"]
  by (simp add: todos_doc_update_def)

lemma update_todo_owned:
  assumes "calls_succeed 2 w"
    and "map_of (todos w) (param_id req) = Some d" "js_get d ''userId'' = JStr uid"
    and "js_get (body req) ''completed'' \<noteq> JUndefined"
  shows "update_todo uid req w =
    (\<lparr>status = 200, json = message_json ''Todo updated successfully''\<rparr>,
     w\<lparr>clock_reads := Suc (clock_reads w),
       trace := trace w @
         [TodosGet (param_id req),
          TodosUpdate (param_id req)
            [(''completed'', js_get (body req) ''completed''),
             (''updatedAt'', JTimestamp (clock w (clock_reads w)))]],
       faults := tl (tl (faults w)),
       todos :=
         map (\<lambda>(j, d). if j = param_id req
                then (j, spread d [(''completed'', js_get (body req) ''completed''),
                        (''updatedAt'', JTimestamp (clock w (clock_reads w)))])
                else (j, d))
           (todos w)\<rparr>)"
proof -
  let ?i = "param_id req"
  let ?data = "[(''completed'', js_get (body req) ''completed''),
                (''updatedAt'', JTimestamp (clock w (clock_reads w)))]"
  let ?w1 = "w\<lparr>trace := trace w @ [TodosGet ?i], faults := tl (faults w)\<rparr>"
  let ?w2 = "?w1\<lparr>clock_reads := Suc (clock_reads w)\<rparr>"
  have g: "todos_doc_get ?i w = (Inr (Some d), ?w1)"
    using assms todos_doc_get_ok [of 2 w ?i] by simp
  have "calls_succeed 1 ?w2"
    using calls_succeed_tl [OF assms(1), of ?w2] by simp
  then have "todos_doc_update ?i ?data ?w2 =
     (None,
      ?w2\<lparr>trace := trace ?w2 @ [TodosUpdate ?i ?data], faults := tl (faults ?w2),
        todos := map (\<lambda>(j, d). if j = ?i then (j, spread d ?data) else (j, d)) (todos ?w2)\<rparr>)"
    by (rule todos_doc_update_ok) (simp_all add: assms has_undefined_def)
  with g assms show ?thesis
    by (simp add: update_todo_def Let_def Timestamp_now_def)
qed

lemma update_todo_200:
  assumes "status (fst (update_todo uid req w)) = 200"
  shows "(\<exists>d. map_of (todos w) (param_id req) = Some d \<and> js_get d ''userId'' = JStr uid) \<and>
         calls_succeed 2 w \<and> js_get (body req) ''completed'' \<noteq> JUndefined"
  using assms
  by (auto simp: update_todo_def Let_def Timestamp_now_def todos_doc_get_def todos_doc_update_def
      sdk_outcome_def log_call_def calls_succeed_def has_undefined_def
      split: if_splits option.splits list.splits)

lemma patch_todos_id_200:
  assumes "status (fst (patch_todos_id req w)) = 200"
  obtains token uid d where
    "authorization req = Some token" "token \<noteq> []" "id_tokens w token = Some uid"
    "map_of (todos w) (param_id req) = Some d" "js_get d ''userId'' = JStr uid"
    "calls_succeed 2 w"
    "patch_todos_id req w = update_todo uid req (log_call (VerifyIdToken token) w)"
    "js_get (body req) ''completed'' \<noteq> JUndefined"
proof -
  from assms have "status (fst (authenticate update_todo req w)) \<noteq> 401"
    by (simp add: patch_todos_id_def)
  then obtain token uid where a:
    "authorization req = Some token" "token \<noteq> []" "id_tokens w token = Some uid"
    using authenticate_not_401 by blast
  then have p: "patch_todos_id req w = update_todo uid req (log_call (VerifyIdToken token) w)"
    by (simp add: patch_todos_id_def authenticate_ok)
  with assms update_todo_200 [of uid req "log_call (VerifyIdToken token) w"]
  obtain d where "map_of (todos w) (param_id req) = Some d" "js_get d ''userId'' = JStr uid"
    "calls_succeed 2 w" "js_get (body req) ''completed'' \<noteq> JUndefined"
    by auto
  with a p that show thesis by blast
qed

section \<open>Updating a todo\<close>

text \<open>
  Claim C7. A successful update-todo request (one answered 200) was made by an
  authenticated caller on a record the caller owns. Its response is the confirmation
  message, not the record. In the store, the record is still there under the same id, every
  field of it other than \<open>completed\<close> and \<open>updatedAt\<close> (so \<open>userId\<close>, \<open>title\<close>,
  \<open>description\<close>, \<open>dueDate\<close>, \<open>createdAt\<close>) is as before, and so are all other
  records, the users and the accounts.
\<close>

theorem update_todo_frame:
  assumes "status (fst (patch_todos_id req w)) = 200"
  shows
    "fst (patch_todos_id req w) =
       \<lparr>status = 200, json = message_json ''Todo updated successfully''\<rparr> \<and>
     (\<exists>token uid d d'.
        authorization req = Some token \<and> id_tokens w token = Some uid \<and>
        map_of (todos w) (param_id req) = Some d \<and> js_get d ''userId'' = JStr uid \<and>
        map_of (todos (snd (patch_todos_id req w))) (param_id req) = Some d' \<and>
        (\<forall>k. k \<noteq> ''completed'' \<and> k \<noteq> ''updatedAt'' \<longrightarrow> map_of d' k = map_of d k)) \<and>
     map fst (todos (snd (patch_todos_id req w))) = map fst (todos w) \<and>
     (\<forall>j. j \<noteq> param_id req \<longrightarrow>
        map_of (todos (snd (patch_todos_id req w))) j = map_of (todos w) j) \<and>
     users (snd (patch_todos_id req w)) = users w \<and>
     accounts (snd (patch_todos_id req w)) = accounts w"
proof -
  from assms obtain token uid d where h:
    "authorization req = Some token" "id_tokens w token = Some uid"
    "map_of (todos w) (param_id req) = Some d" "js_get d ''userId'' = JStr uid"
    "calls_succeed 2 w"
    "patch_todos_id req w = update_todo uid req (log_call (VerifyIdToken token) w)"
    "js_get (body req) ''completed'' \<noteq> JUndefined"
    by (rule patch_todos_id_200)
  let ?data = "[(''completed'', js_get (body req) ''completed''),
                (''updatedAt'', JTimestamp (clock w (clock_reads w)))]"
  have u: "patch_todos_id req w =
    (\<lparr>status = 200, json = message_json ''Todo updated successfully''\<rparr>,
     w\<lparr>clock_reads := Suc (clock_reads w),
       trace := trace w @ [VerifyIdToken token, TodosGet (param_id req), TodosUpdate (param_id req) ?data],
       faults := tl (tl (faults w)),
       todos := map (\<lambda>(j, d). if j = param_id req then (j, spread d ?data) else (j, d))
                  (todos w)\<rparr>)"
    using h(3-5) h(7) update_todo_owned [of "log_call (VerifyIdToken token) w" req d uid]
    by (simp add: h(6) log_call_def calls_succeed_def cong: if_cong)
  let ?f = "\<lambda>d. spread d ?data"
  let ?w' = "snd (patch_todos_id req w)"
  have t: "todos ?w' = map (\<lambda>(j, d). if j = param_id req then (j, ?f d) else (j, d)) (todos w)"
    by (simp add: u)
  have f: "\<forall>k. k \<noteq> ''completed'' \<and> k \<noteq> ''updatedAt'' \<longrightarrow> map_of (?f d) k = map_of d k"
    by (auto intro!: map_of_spread_other)
  have r: "fst (patch_todos_id req w) =
       \<lparr>status = 200, json = message_json ''Todo updated successfully''\<rparr>"
    and x: "users ?w' = users w" "accounts ?w' = accounts w"
    by (simp_all add: u)
  have k: "map fst (todos ?w') = map fst (todos w)"
    unfolding t by (rule map_fst_map_doc)
  have o: "\<forall>j. j \<noteq> param_id req \<longrightarrow> map_of (todos ?w') j = map_of (todos w) j"
    unfolding t by (simp only: map_of_map_doc) simp
  have m: "map_of (todos ?w') (param_id req) = Some (?f d)"
    unfolding t by (simp only: map_of_map_doc) (simp add: h(3))
  from h(1-4) m f have e: "\<exists>token uid d d'.
        authorization req = Some token \<and> id_tokens w token = Some uid \<and>
        map_of (todos w) (param_id req) = Some d \<and> js_get d ''userId'' = JStr uid \<and>
        map_of (todos ?w') (param_id req) = Some d' \<and>
        (\<forall>k. k \<noteq> ''completed'' \<and> k \<noteq> ''updatedAt'' \<longrightarrow> map_of d' k = map_of d k)"
    by blast
  from r e k o x show ?thesis by blast
qed

text \<open>Alice marks her todo as completed.\<close>

theorem update_todo_frame_witness:
  "status (fst (patch_todos_id \<lparr>authorization = Some ''token-alice'', body = [(''completed'', JBool True)], param_id = ''t1''\<rparr> demo_world)) = 200 \<and>
   json (fst (patch_todos_id \<lparr>authorization = Some ''token-alice'', body = [(''completed'', JBool True)], param_id = ''t1''\<rparr> demo_world)) =
     message_json ''Todo updated successfully'' \<and>
   map fst (todos (snd (patch_todos_id \<lparr>authorization = Some ''token-alice'', body = [(''completed'', JBool True)], param_id = ''t1''\<rparr> demo_world))) =
     [''t1'', ''t2''] \<and>
   map_of (todos (snd (patch_todos_id \<lparr>authorization = Some ''token-alice'', body = [(''completed'', JBool True)], param_id = ''t1''\<rparr> demo_world))) ''t2'' =
     map_of (todos demo_world) ''t2''"
proof -
  let ?req = "\<lparr>authorization = Some ''token-alice'', body = [(''completed'', JBool True)], param_id = ''t1''\<rparr>"
  have s: "status (fst (patch_todos_id ?req demo_world)) = 200"
    by (simp add: patch_todos_id_def authenticate_def verifyIdToken_def update_todo_def js_get_def
      demo_world_def log_call_def Timestamp_now_def todos_doc_get_def todos_doc_update_def
      sdk_outcome_def Let_def has_undefined_def)
  have k: "map fst (todos demo_world) = [''t1'', ''t2'']"
    by (simp add: demo_world_def)
  from update_todo_frame [OF s] s show ?thesis
    by (simp add: k)
qed

lemma map_of_update_fields:
  "map_of (spread d [(''completed'', v), (''updatedAt'', JTimestamp t)]) =
     (map_of d)(''completed'' \<mapsto> v, ''updatedAt'' \<mapsto> JTimestamp t)"
  by (simp add: spread_def update_conv')

lemma patch_todos_id_200_world:
  assumes "status (fst (patch_todos_id req w)) = 200"
  obtains token uid d where
    "authorization req = Some token" "token \<noteq> []" "id_tokens w token = Some uid"
    "map_of (todos w) (param_id req) = Some d" "js_get d ''userId'' = JStr uid"
    "patch_todos_id req w =
      (\<lparr>status = 200, json = message_json ''Todo updated successfully''\<rparr>,
       w\<lparr>clock_reads := Suc (clock_reads w),
         trace := trace w @
           [VerifyIdToken token, TodosGet (param_id req),
            TodosUpdate (param_id req)
              [(''completed'', js_get (body req) ''completed''),
               (''updatedAt'', JTimestamp (clock w (clock_reads w)))]],
         faults := tl (tl (faults w)),
         todos :=
           map (\<lambda>(j, d). if j = param_id req
                  then (j, spread d [(''completed'', js_get (body req) ''completed''),
                          (''updatedAt'', JTimestamp (clock w (clock_reads w)))])
                  else (j, d))
             (todos w)\<rparr>)"
proof -
  from assms obtain token uid d where h:
    "authorization req = Some token" "token \<noteq> []" "id_tokens w token = Some uid"
    "map_of (todos w) (param_id req) = Some d" "js_get d ''userId'' = JStr uid"
    "calls_succeed 2 w"
    "patch_todos_id req w = update_todo uid req (log_call (VerifyIdToken token) w)"
    "js_get (body req) ''completed'' \<noteq> JUndefined"
    by (rule patch_todos_id_200)
  show thesis
    using h(4-6) h(8) update_todo_owned [of "log_call (VerifyIdToken token) w" req d uid]
    by (intro that [OF h(1-5)]) (simp add: h(7) log_call_def calls_succeed_def cong: if_cong)
qed

text \<open>
  Claim C8, amended. When update-todo is performed twice in succession with the same
  request, both times successfully, the stored \<open>completed\<close> field after the second call
  is what it was after the first, and each call writes \<open>updatedAt\<close> anew: the first the
  reading of the server clock during the first call, the second the next reading. The two
  \<open>updatedAt\<close> values are distinct exactly when those two readings differ.
\<close>

theorem update_todo_twice:
  assumes "status (fst (patch_todos_id req w)) = 200"
    and "status (fst (patch_todos_id req (snd (patch_todos_id req w)))) = 200"
  shows
    "\<exists>d1 d2.
       map_of (todos (snd (patch_todos_id req w))) (param_id req) = Some d1 \<and>
       map_of (todos (snd (patch_todos_id req (snd (patch_todos_id req w))))) (param_id req) = Some d2 \<and>
       map_of d2 ''completed'' = map_of d1 ''completed'' \<and>
       map_of d1 ''updatedAt'' = Some (JTimestamp (clock w (clock_reads w))) \<and>
       map_of d2 ''updatedAt'' = Some (JTimestamp (clock w (Suc (clock_reads w)))) \<and>
       (map_of d2 ''updatedAt'' \<noteq> map_of d1 ''updatedAt'') =
         (clock w (Suc (clock_reads w)) \<noteq> clock w (clock_reads w))"
proof -
  let ?i = "param_id req"
  let ?v = "js_get (body req) ''completed''"
  let ?w1 = "snd (patch_todos_id req w)"
  let ?w2 = "snd (patch_todos_id req ?w1)"
  let ?f = "\<lambda>t d. spread d [(''completed'', ?v), (''updatedAt'', JTimestamp t)]"
  from assms(1) obtain d where d: "map_of (todos w) ?i = Some d"
    and t1: "todos ?w1 = map (\<lambda>(j, d). if j = ?i then (j, ?f (clock w (clock_reads w)) d) else (j, d)) (todos w)"
    and c1: "clock ?w1 = clock w" "clock_reads ?w1 = Suc (clock_reads w)"
    by (rule patch_todos_id_200_world) simp
  let ?d1 = "?f (clock w (clock_reads w)) d"
  have m1: "map_of (todos ?w1) ?i = Some ?d1"
    unfolding t1 by (simp only: map_of_map_doc) (simp add: d)
  from assms(2) obtain d' where d': "map_of (todos ?w1) ?i = Some d'"
    and t2: "todos ?w2 = map (\<lambda>(j, d). if j = ?i then (j, ?f (clock ?w1 (clock_reads ?w1)) d) else (j, d)) (todos ?w1)"
    by (rule patch_todos_id_200_world) simp
  let ?d2 = "?f (clock w (Suc (clock_reads w))) ?d1"
  have m2: "map_of (todos ?w2) ?i = Some ?d2"
    unfolding t2 by (simp only: map_of_map_doc) (simp add: m1 c1)
  have "map_of ?d2 ''completed'' = map_of ?d1 ''completed''"
    and "map_of ?d1 ''updatedAt'' = Some (JTimestamp (clock w (clock_reads w)))"
    and "map_of ?d2 ''updatedAt'' = Some (JTimestamp (clock w (Suc (clock_reads w))))"
    by (simp_all add: map_of_update_fields)
  with m1 m2 show ?thesis by auto
qed

lemmas run_defs =
  patch_todos_id_def authenticate_def verifyIdToken_def update_todo_def js_get_def
  log_call_def Timestamp_now_def todos_doc_get_def todos_doc_update_def
  sdk_outcome_def Let_def spread_def has_undefined_def undefined_rejected_def

text \<open>Alice marks her todo as completed twice; the clock reads 1000, then 1001.\<close>

theorem update_todo_twice_witness:
  "status (fst (patch_todos_id \<lparr>authorization = Some ''token-alice'', body = [(''completed'', JBool True)], param_id = ''t1''\<rparr> demo_world)) = 200 \<and>
   status (fst (patch_todos_id \<lparr>authorization = Some ''token-alice'', body = [(''completed'', JBool True)], param_id = ''t1''\<rparr>
     (snd (patch_todos_id \<lparr>authorization = Some ''token-alice'', body = [(''completed'', JBool True)], param_id = ''t1''\<rparr> demo_world)))) = 200 \<and>
   (\<exists>d1 d2.
       map_of (todos (snd (patch_todos_id \<lparr>authorization = Some ''token-alice'', body = [(''completed'', JBool True)], param_id = ''t1''\<rparr> demo_world))) ''t1'' = Some d1 \<and>
       map_of (todos (snd (patch_todos_id \<lparr>authorization = Some ''token-alice'', body = [(''completed'', JBool True)], param_id = ''t1''\<rparr>
         (snd (patch_todos_id \<lparr>authorization = Some ''token-alice'', body = [(''completed'', JBool True)], param_id = ''t1''\<rparr> demo_world))))) ''t1'' = Some d2 \<and>
       map_of d2 ''completed'' = map_of d1 ''completed'' \<and>
       map_of d1 ''updatedAt'' = Some (JTimestamp 1000) \<and>
       map_of d2 ''updatedAt'' = Some (JTimestamp 1001))"
proof -
  let ?req = "\<lparr>authorization = Some ''token-alice'', body = [(''completed'', JBool True)], param_id = ''t1''\<rparr>"
  have s1: "status (fst (patch_todos_id ?req demo_world)) = 200"
    by (simp add: run_defs demo_world_def)
  have s2: "status (fst (patch_todos_id ?req (snd (patch_todos_id ?req demo_world)))) = 200"
    by (simp add: run_defs demo_world_def)
  have c: "clock demo_world (clock_reads demo_world) = 1000"
    "clock demo_world (Suc (clock_reads demo_world)) = 1001"
    by (simp_all add: demo_world_def)
  from update_todo_twice [OF s1 s2] s1 s2 show ?thesis
    by (simp add: c) blast
qed

text \<open>
  Claim C8 as stated fails when the server clock gives the same reading during both calls:
  both calls succeed, and the two \<open>updatedAt\<close> values written are equal.
\<close>

theorem update_todo_twice_same_updatedAt_counterexample:
  "status (fst (patch_todos_id \<lparr>authorization = Some ''token-alice'', body = [(''completed'', JBool True)], param_id = ''t1''\<rparr> frozen_clock_world)) = 200 \<and>
   status (fst (patch_todos_id \<lparr>authorization = Some ''token-alice'', body = [(''completed'', JBool True)], param_id = ''t1''\<rparr>
     (snd (patch_todos_id \<lparr>authorization = Some ''token-alice'', body = [(''completed'', JBool True)], param_id = ''t1''\<rparr> frozen_clock_world)))) = 200 \<and>
   map_of (todos (snd (patch_todos_id \<lparr>authorization = Some ''token-alice'', body = [(''completed'', JBool True)], param_id = ''t1''\<rparr> frozen_clock_world))) ''t1'' =
     Some [(''userId'', JStr ''alice''), (''title'', JStr ''Buy Groceries''),
           (''description'', JStr ''Get milk and bread''), (''dueDate'', JStr ''2025-02-10''),
           (''createdAt'', JTimestamp 500), (''updatedAt'', JTimestamp 1000),
           (''completed'', JBool True)] \<and>
   map_of (todos (snd (patch_todos_id \<lparr>authorization = Some ''token-alice'', body = [(''completed'', JBool True)], param_id = ''t1''\<rparr>
     (snd (patch_todos_id \<lparr>authorization = Some ''token-alice'', body = [(''completed'', JBool True)], param_id = ''t1''\<rparr> frozen_clock_world))))) ''t1'' =
     Some [(''userId'', JStr ''alice''), (''title'', JStr ''Buy Groceries''),
           (''description'', JStr ''Get milk and bread''), (''dueDate'', JStr ''2025-02-10''),
           (''createdAt'', JTimestamp 500), (''updatedAt'', JTimestamp 1000),
           (''completed'', JBool True)]"
  by (simp add: run_defs demo_world_def frozen_clock_world_def)







section \<open>Listing todos\<close>

lemma todos_where_get_ok:
  "calls_succeed n w \<Longrightarrow> 0 < n \<Longrightarrow>
   todos_where_get uid w =
     (Inr (filter (\<lambda>(i, d). js_get d ''userId'' = JStr uid) (todos w)),
      w\<lparr>trace := trace w @ [TodosWhereUserId uid], faults := tl (faults w)\<rparr>)"
  using sdk_outcome_ok [of n "log_call (TodosWhereUserId uid) w"]
  by (simp add: todos_where_get_def)

lemma list_todos_ok:
  "calls_succeed n w \<Longrightarrow> 0 < n \<Longrightarrow>
   list_todos uid req w =
     (\<lparr>status = 200,
       json = JArr (map (\<lambda>(i, d). JObj (spread [(''id'', JStr i)] d))
                     (filter (\<lambda>(i, d). js_get d ''userId'' = JStr uid) (todos w)))\<rparr>,
      w\<lparr>trace := trace w @ [TodosWhereUserId uid], faults := tl (faults w)\<rparr>)"
  by (simp add: list_todos_def todos_where_get_ok)

lemma list_todos_200:
  "status (fst (list_todos uid req w)) = 200 \<Longrightarrow> calls_succeed 1 w"
  by (auto simp: list_todos_def todos_where_get_def sdk_outcome_def log_call_def calls_succeed_def
      split: list.splits option.splits)

lemma spread_id_carried:
  "map_of d ''id'' = None \<Longrightarrow> map_of (spread [(''id'', JStr i)] d) ''id'' = Some (JStr i)"
  using map_of_spread_other [of "''id''" d "[(''id'', JStr i)]"]
  by (simp add: map_of_eq_None_iff)

lemma spread_id_fields:
  assumes "map_of d ''id'' = None" "distinct (map fst d)"
  shows "map_of (spread [(''id'', JStr i)] d) = (map_of d)(''id'' \<mapsto> JStr i)"
proof
  fix k
  show "map_of (spread [(''id'', JStr i)] d) k = ((map_of d)(''id'' \<mapsto> JStr i)) k"
    using assms(1) by (auto simp: map_of_spread_distinct [OF assms(2)] map_add_def split: option.splits)
qed

lemma distinct_spread:
  "distinct (map fst base) \<Longrightarrow> distinct (map fst (spread base extra))"
  unfolding spread_def
  by (induction extra arbitrary: base) (auto simp: distinct_update)

lemma wf_document_spread:
  "wf_document d \<Longrightarrow> ''id'' \<notin> fst ` set extra \<Longrightarrow> wf_document (spread d extra)"
  by (simp add: wf_document_def distinct_spread map_of_spread_other)

lemma wf_todos_log [simp]: "wf_todos (log_call c w) = wf_todos w"
  by (simp add: wf_todos_def)

lemma wf_todos_create: "wf_todos w \<Longrightarrow> wf_todos (snd (create_todo uid req w))"
  by (auto simp: wf_todos_def wf_document_def create_todo_def Let_def Timestamp_now_def todos_add_def
      sdk_outcome_def new_id_def log_call_def has_undefined_def
      split: list.splits option.splits)

lemma wf_todos_update: "wf_todos w \<Longrightarrow> wf_todos (snd (update_todo uid req w))"
  by (auto simp: wf_todos_def update_todo_def Let_def Timestamp_now_def todos_doc_get_def
      todos_doc_update_def sdk_outcome_def log_call_def has_undefined_def
      intro!: wf_document_spread
      split: list.splits option.splits if_splits)

lemma wf_todos_delete: "wf_todos w \<Longrightarrow> wf_todos (snd (delete_todo uid req w))"
  by (auto simp: wf_todos_def delete_todo_def Let_def todos_doc_get_def AList.delete_eq
      todos_doc_delete_def sdk_outcome_def log_call_def
      split: list.splits option.splits if_splits)

lemma wf_todos_list: "wf_todos w \<Longrightarrow> wf_todos (snd (list_todos uid req w))"
  by (auto simp: wf_todos_def list_todos_def todos_where_get_def sdk_outcome_def log_call_def
      split: list.splits option.splits)

lemma wf_todos_authenticate:
  "(\<And>uid w'. wf_todos w' \<Longrightarrow> wf_todos (snd (next uid req w'))) \<Longrightarrow> wf_todos w \<Longrightarrow>
   wf_todos (snd (authenticate next req w))"
  by (auto simp: authenticate_def verifyIdToken_def split: option.splits)

lemma wf_todos_signup: "wf_todos w \<Longrightarrow> wf_todos (snd (post_signup req w))"
  by (auto simp: wf_todos_def post_signup_def Let_def createUser_def users_doc_set_def
      sdk_outcome_def new_id_def log_call_def
      split: list.splits option.splits)

text \<open>
  Every route keeps the stored todos well formed: starting from an empty collection, the
  documents in the store are objects without a field named \<open>id\<close>.
\<close>

lemma routes_keep_wf_todos:
  assumes "wf_todos w"
  shows "wf_todos (snd (post_signup req w))" "wf_todos (snd (post_todos req w))"
    "wf_todos (snd (get_todos req w))" "wf_todos (snd (delete_todos_id req w))"
    "wf_todos (snd (patch_todos_id req w))"
  using assms
  by (simp_all add: post_todos_def get_todos_def delete_todos_id_def patch_todos_id_def
      wf_todos_signup wf_todos_authenticate wf_todos_create wf_todos_list wf_todos_delete
      wf_todos_update)

lemma post_todos_201_world:
  assumes "status (fst (post_todos req w)) = 201"
  obtains token uid where
    "authorization req = Some token" "token \<noteq> []" "id_tokens w token = Some uid"
    "truthy (js_get (body req) ''title'')"
    "map_of (todos w) (auto_ids w (ids_issued w)) = None"
    "fst (post_todos req w) =
       \<lparr>status = 201,
         json = JObj
           [(''id'', JStr (auto_ids w (ids_issued w))),
            (''userId'', JStr uid),
            (''title'', js_get (body req) ''title''),
            (''description'', js_or (js_get (body req) ''description'') (JStr [])),
            (''dueDate'', js_or (js_get (body req) ''dueDate'') JNull),
            (''createdAt'', JTimestamp (clock w (clock_reads w))),
            (''updatedAt'', JTimestamp (clock w (Suc (clock_reads w)))),
            (''completed'', JBool False)]\<rparr>"
    "todos (snd (post_todos req w)) =
       todos w @
         [(auto_ids w (ids_issued w),
           [(''userId'', JStr uid),
            (''title'', js_get (body req) ''title''),
            (''description'', js_or (js_get (body req) ''description'') (JStr [])),
            (''dueDate'', js_or (js_get (body req) ''dueDate'') JNull),
            (''createdAt'', JTimestamp (clock w (clock_reads w))),
            (''updatedAt'', JTimestamp (clock w (Suc (clock_reads w)))),
            (''completed'', JBool False)])]"
    "id_tokens (snd (post_todos req w)) = id_tokens w"
proof -
  from assms obtain token uid where h:
    "authorization req = Some token" "token \<noteq> []" "id_tokens w token = Some uid"
    "truthy (js_get (body req) ''title'')" "calls_succeed 1 w"
    "map_of (todos w) (auto_ids w (ids_issued w)) = None"
    "post_todos req w = create_todo uid req (log_call (VerifyIdToken token) w)"
    by (rule post_todos_201)
  show thesis
    using h(4-6) create_todo_ok [of req 1 "log_call (VerifyIdToken token) w" uid]
    by (intro that [OF h(1-4) h(6)]) (simp_all add: h(7))
qed

text \<open>
  Claim C3. For an authenticated caller whose query does not throw, list-todos answers 200
  with one record for each stored todo whose \<open>userId\<close> is the caller's id, all of them and
  no others, in the order of the store, and leaves the store as it was. Each record is the
  stored document with its store-assigned id merged in: in a well-formed store (which the
  routes maintain, \<open>routes_keep_wf_todos\<close>) the record's \<open>id\<close> is the document's id in
  the store, and its other fields are the document's. Round trip: when the
  caller creates a todo (201) and then lists (200), the list contains the very record that
  the creation returned, whose \<open>title\<close> is the one given, whose \<open>description\<close> and
  \<open>dueDate\<close> are the ones given (the empty string and \<^verbatim>\<open>null\<close> when none or a falsy one
  is given; so every description that is a string, and every date, is kept), and whose
  \<open>completed\<close> is false.
\<close>

theorem list_todos_exact:
  assumes "authorization req = Some token" and "token \<noteq> []" and "id_tokens w token = Some uid"
  shows
    "(calls_succeed 1 w \<longrightarrow>
        fst (get_todos req w) =
          \<lparr>status = 200,
            json = JArr (map (\<lambda>(i, d). JObj (spread [(''id'', JStr i)] d))
                          (filter (\<lambda>(i, d). js_get d ''userId'' = JStr uid) (todos w)))\<rparr> \<and>
        todos (snd (get_todos req w)) = todos w) \<and>
     (wf_todos w \<longrightarrow>
        (\<forall>(i, d) \<in> set (todos w).
           js_get (spread [(''id'', JStr i)] d) ''id'' = JStr i \<and>
           (\<forall>k. k \<noteq> ''id'' \<longrightarrow> js_get (spread [(''id'', JStr i)] d) k = js_get d k))) \<and>
     (\<forall>reqC.
        authorization reqC = Some token \<and>
        status (fst (post_todos reqC w)) = 201 \<and>
        status (fst (get_todos req (snd (post_todos reqC w)))) = 200 \<longrightarrow>
        (\<exists>r rs.
           json (fst (post_todos reqC w)) = JObj r \<and>
           json (fst (get_todos req (snd (post_todos reqC w)))) = JArr rs \<and>
           JObj r \<in> set rs \<and>
           js_get r ''title'' = js_get (body reqC) ''title'' \<and>
           js_get r ''description'' = js_or (js_get (body reqC) ''description'') (JStr []) \<and>
           js_get r ''dueDate'' = js_or (js_get (body reqC) ''dueDate'') JNull \<and>
           (\<forall>s. js_get (body reqC) ''description'' = JStr s \<longrightarrow>
                js_get r ''description'' = JStr s) \<and>
           (truthy (js_get (body reqC) ''dueDate'') \<longrightarrow>
              js_get r ''dueDate'' = js_get (body reqC) ''dueDate'') \<and>
           js_get r ''completed'' = JBool False))"
proof -
  have g: "get_todos req w' = list_todos uid req (log_call (VerifyIdToken token) w')"
    if "id_tokens w' = id_tokens w" for w'
    using assms that by (simp add: get_todos_def authenticate_ok)
  have a: "fst (get_todos req w) =
          \<lparr>status = 200,
            json = JArr (map (\<lambda>(i, d). JObj (spread [(''id'', JStr i)] d))
                          (filter (\<lambda>(i, d). js_get d ''userId'' = JStr uid) (todos w)))\<rparr> \<and>
        todos (snd (get_todos req w)) = todos w"
    if "calls_succeed 1 w"
    using that list_todos_ok [of 1 "log_call (VerifyIdToken token) w" uid req]
    by (simp add: g)
  have b: "js_get (spread [(''id'', JStr i)] d) ''id'' = JStr i \<and>
          (\<forall>k. k \<noteq> ''id'' \<longrightarrow> js_get (spread [(''id'', JStr i)] d) k = js_get d k)"
    if "wf_todos w" "(i, d) \<in> set (todos w)" for i d
  proof -
    from that have "distinct (map fst d)" "map_of d ''id'' = None"
      by (auto simp: wf_todos_def wf_document_def)
    then show ?thesis
      by (simp add: js_get_def spread_id_carried spread_id_fields)
  qed
  have c: "\<exists>r rs.
           json (fst (post_todos reqC w)) = JObj r \<and>
           json (fst (get_todos req (snd (post_todos reqC w)))) = JArr rs \<and>
           JObj r \<in> set rs \<and>
           js_get r ''title'' = js_get (body reqC) ''title'' \<and>
           js_get r ''description'' = js_or (js_get (body reqC) ''description'') (JStr []) \<and>
           js_get r ''dueDate'' = js_or (js_get (body reqC) ''dueDate'') JNull \<and>
           (\<forall>s. js_get (body reqC) ''description'' = JStr s \<longrightarrow>
                js_get r ''description'' = JStr s) \<and>
           (truthy (js_get (body reqC) ''dueDate'') \<longrightarrow>
              js_get r ''dueDate'' = js_get (body reqC) ''dueDate'') \<and>
           js_get r ''completed'' = JBool False"
    if q: "authorization reqC = Some token"
      and s1: "status (fst (post_todos reqC w)) = 201"
      and s2: "status (fst (get_todos req (snd (post_todos reqC w)))) = 200"
    for reqC
  proof -
    let ?w1 = "snd (post_todos reqC w)"
    let ?i = "auto_ids w (ids_issued w)"
    let ?d = "[(''userId'', JStr uid),
            (''title'', js_get (body reqC) ''title''),
            (''description'', js_or (js_get (body reqC) ''description'') (JStr [])),
            (''dueDate'', js_or (js_get (body reqC) ''dueDate'') JNull),
            (''createdAt'', JTimestamp (clock w (clock_reads w))),
            (''updatedAt'', JTimestamp (clock w (Suc (clock_reads w)))),
            (''completed'', JBool False)]"
    from s1 obtain token' uid' where h:
      "authorization reqC = Some token'" "id_tokens w token' = Some uid'"
      "json (fst (post_todos reqC w)) =
         JObj ((''id'', JStr ?i) #
           [(''userId'', JStr uid'),
            (''title'', js_get (body reqC) ''title''),
            (''description'', js_or (js_get (body reqC) ''description'') (JStr [])),
            (''dueDate'', js_or (js_get (body reqC) ''dueDate'') JNull),
            (''createdAt'', JTimestamp (clock w (clock_reads w))),
            (''updatedAt'', JTimestamp (clock w (Suc (clock_reads w)))),
            (''completed'', JBool False)])"
      "todos ?w1 = todos w @
         [(?i,
           [(''userId'', JStr uid'),
            (''title'', js_get (body reqC) ''title''),
            (''description'', js_or (js_get (body reqC) ''description'') (JStr [])),
            (''dueDate'', js_or (js_get (body reqC) ''dueDate'') JNull),
            (''createdAt'', JTimestamp (clock w (clock_reads w))),
            (''updatedAt'', JTimestamp (clock w (Suc (clock_reads w)))),
            (''completed'', JBool False)])]"
      "id_tokens ?w1 = id_tokens w"
      by (rule post_todos_201_world) simp
    from h(1,2) q assms(3) have e: "uid' = uid" by simp
    have l: "get_todos req ?w1 = list_todos uid req (log_call (VerifyIdToken token) ?w1)"
      using h(5) by (rule g)
    with s2 have "status (fst (list_todos uid req (log_call (VerifyIdToken token) ?w1))) = 200"
      by simp
    then have "calls_succeed 1 (log_call (VerifyIdToken token) ?w1)"
      by (rule list_todos_200)
    then have j: "json (fst (get_todos req ?w1)) =
        JArr (map (\<lambda>(i, d). JObj (spread [(''id'', JStr i)] d))
               (filter (\<lambda>(i, d). js_get d ''userId'' = JStr uid) (todos ?w1)))"
      using list_todos_ok [of 1 "log_call (VerifyIdToken token) ?w1" uid req]
      by (simp add: l)
    have u: "js_get ?d ''userId'' = JStr uid"
      by (simp add: js_get_def)
    have sp: "spread [(''id'', JStr ?i)] ?d = (''id'', JStr ?i) # ?d"
      by (simp add: spread_def)
    have "JObj ((''id'', JStr ?i) # ?d) \<in>
        set (map (\<lambda>(i, d). JObj (spread [(''id'', JStr i)] d))
               (filter (\<lambda>(i, d). js_get d ''userId'' = JStr uid) (todos ?w1)))"
      unfolding h(4) e by (simp add: u sp)
    moreover have "js_get ((''id'', JStr ?i) # ?d) ''title'' = js_get (body reqC) ''title''"
      "js_get ((''id'', JStr ?i) # ?d) ''description'' = js_or (js_get (body reqC) ''description'') (JStr [])"
      "js_get ((''id'', JStr ?i) # ?d) ''dueDate'' = js_or (js_get (body reqC) ''dueDate'') JNull"
      "\<forall>s. js_get (body reqC) ''description'' = JStr s \<longrightarrow>
           js_get ((''id'', JStr ?i) # ?d) ''description'' = JStr s"
      "truthy (js_get (body reqC) ''dueDate'') \<longrightarrow>
         js_get ((''id'', JStr ?i) # ?d) ''dueDate'' = js_get (body reqC) ''dueDate''"
      "js_get ((''id'', JStr ?i) # ?d) ''completed'' = JBool False"
      by (simp_all add: js_get_def js_or_string js_or_truthy)
    ultimately show ?thesis
      using h(3) j unfolding e by blast
  qed
  from a b c show ?thesis by blast
qed

lemmas create_run_defs =
  post_todos_def get_todos_def authenticate_def verifyIdToken_def create_todo_def list_todos_def
  js_get_def js_or_def log_call_def Timestamp_now_def todos_add_def todos_where_get_def
  sdk_outcome_def new_id_def Let_def spread_def has_undefined_def undefined_rejected_def

text \<open>
  Alice lists her todos in the example world; then she creates the todo of the README and
  lists again.
\<close>

theorem list_todos_exact_witness:
  "fst (get_todos \<lparr>authorization = Some ''token-alice'', body = [], param_id = []\<rparr> demo_world) =
     \<lparr>status = 200,
       json = JArr
         [JObj [(''id'', JStr ''t1''), (''userId'', JStr ''alice''), (''title'', JStr ''Buy Groceries''),
                (''description'', JStr ''Get milk and bread''), (''dueDate'', JStr ''2025-02-10''),
                (''createdAt'', JTimestamp 500), (''updatedAt'', JTimestamp 500),
                (''completed'', JBool False)]]\<rparr> \<and>
   (\<exists>r rs.
      json (fst (post_todos
        \<lparr>authorization = Some ''token-alice'',
          body = [(''title'', JStr ''Buy Groceries''), (''description'', JStr ''Get milk and bread''),
                  (''dueDate'', JStr ''2025-02-10'')],
          param_id = []\<rparr> demo_world)) = JObj r \<and>
      json (fst (get_todos \<lparr>authorization = Some ''token-alice'', body = [], param_id = []\<rparr>
        (snd (post_todos
          \<lparr>authorization = Some ''token-alice'',
            body = [(''title'', JStr ''Buy Groceries''), (''description'', JStr ''Get milk and bread''),
                    (''dueDate'', JStr ''2025-02-10'')],
            param_id = []\<rparr> demo_world)))) = JArr rs \<and>
      JObj r \<in> set rs \<and>
      js_get r ''title'' = JStr ''Buy Groceries'' \<and>
      js_get r ''description'' = JStr ''Get milk and bread'' \<and>
      js_get r ''dueDate'' = JStr ''2025-02-10'' \<and>
      js_get r ''completed'' = JBool False)"
proof -
  let ?l = "\<lparr>authorization = Some ''token-alice'', body = [], param_id = []\<rparr>"
  let ?c = "\<lparr>authorization = Some ''token-alice'',
          body = [(''title'', JStr ''Buy Groceries''), (''description'', JStr ''Get milk and bread''),
                  (''dueDate'', JStr ''2025-02-10'')],
          param_id = []\<rparr>"
  have h: "authorization ?l = Some ''token-alice''" "''token-alice'' \<noteq> []"
    "id_tokens demo_world ''token-alice'' = Some ''alice''"
    by (simp_all add: demo_world_def)
  have c: "calls_succeed 1 demo_world"
    by (simp add: demo_world_def calls_succeed_def)
  have s1: "status (fst (post_todos ?c demo_world)) = 201"
    by (simp add: create_run_defs demo_world_def)
  have s2: "status (fst (get_todos ?l (snd (post_todos ?c demo_world)))) = 200"
    by (simp add: create_run_defs demo_world_def)
  have q: "authorization ?c = Some ''token-alice''"
    by simp
  note t = list_todos_exact [OF h]
  from t c have 1: "fst (get_todos ?l demo_world) =
     \<lparr>status = 200,
       json = JArr
         [JObj [(''id'', JStr ''t1''), (''userId'', JStr ''alice''), (''title'', JStr ''Buy Groceries''),
                (''description'', JStr ''Get milk and bread''), (''dueDate'', JStr ''2025-02-10''),
                (''createdAt'', JTimestamp 500), (''updatedAt'', JTimestamp 500),
                (''completed'', JBool False)]]\<rparr>"
    by (simp add: demo_world_def js_get_def spread_def)
  from t q s1 s2 have "\<exists>r rs.
           json (fst (post_todos ?c demo_world)) = JObj r \<and>
           json (fst (get_todos ?l (snd (post_todos ?c demo_world)))) = JArr rs \<and>
           JObj r \<in> set rs \<and>
           js_get r ''title'' = js_get (body ?c) ''title'' \<and>
           js_get r ''description'' = js_or (js_get (body ?c) ''description'') (JStr []) \<and>
           js_get r ''dueDate'' = js_or (js_get (body ?c) ''dueDate'') JNull \<and>
           js_get r ''completed'' = JBool False"
    by blast
  then have 2: "\<exists>r rs.
           json (fst (post_todos ?c demo_world)) = JObj r \<and>
           json (fst (get_todos ?l (snd (post_todos ?c demo_world)))) = JArr rs \<and>
           JObj r \<in> set rs \<and>
           js_get r ''title'' = JStr ''Buy Groceries'' \<and>
           js_get r ''description'' = JStr ''Get milk and bread'' \<and>
           js_get r ''dueDate'' = JStr ''2025-02-10'' \<and>
           js_get r ''completed'' = JBool False"
    by (simp add: js_get_def js_or_def)
  from 1 2 show ?thesis by blast
qed

section \<open>Fields that only the server sets\<close>

text \<open>
  Claim C9. The outcome of an authenticated create-todo request, response and world,
  depends on the body only through \<open>title\<close>, \<open>description\<close> and \<open>dueDate\<close>: any \<open>userId\<close>,
  \<open>completed\<close>, \<open>createdAt\<close>, \<open>updatedAt\<close> or \<open>id\<close> in the body is ignored. Whenever a
  record is created (201), it has exactly the seven fields of the handler, its \<open>userId\<close> is
  the uid of the verified token, its \<open>completed\<close> is false, its two timestamps are readings
  of the server clock, and its id is the one the store assigned.
\<close>

theorem create_todo_ignores_client_fields:
  assumes "authorization req = Some token" and "id_tokens w token = Some uid"
  shows
    "(\<forall>req'.
        authorization req' = Some token \<and>
        js_get (body req') ''title'' = js_get (body req) ''title'' \<and>
        js_get (body req') ''description'' = js_get (body req) ''description'' \<and>
        js_get (body req') ''dueDate'' = js_get (body req) ''dueDate'' \<longrightarrow>
        post_todos req' w = post_todos req w) \<and>
     (status (fst (post_todos req w)) = 201 \<longrightarrow>
        (\<exists>i d.
           todos (snd (post_todos req w)) = todos w @ [(i, d)] \<and>
           json (fst (post_todos req w)) = JObj ((''id'', JStr i) # d) \<and>
           i = auto_ids w (ids_issued w) \<and>
           map fst d = [''userId'', ''title'', ''description'', ''dueDate'', ''createdAt'',
                        ''updatedAt'', ''completed''] \<and>
           map_of d ''userId'' = Some (JStr uid) \<and>
           map_of d ''completed'' = Some (JBool False) \<and>
           map_of d ''createdAt'' = Some (JTimestamp (clock w (clock_reads w))) \<and>
           map_of d ''updatedAt'' = Some (JTimestamp (clock w (Suc (clock_reads w))))))"
proof -
  have a: "post_todos req' w = post_todos req w"
    if "authorization req' = Some token"
      "js_get (body req') ''title'' = js_get (body req) ''title''"
      "js_get (body req') ''description'' = js_get (body req) ''description''"
      "js_get (body req') ''dueDate'' = js_get (body req) ''dueDate''"
    for req'
    using that assms
    by (simp add: post_todos_def authenticate_def verifyIdToken_def create_todo_def)
  have b: "\<exists>i d.
           todos (snd (post_todos req w)) = todos w @ [(i, d)] \<and>
           json (fst (post_todos req w)) = JObj ((''id'', JStr i) # d) \<and>
           i = auto_ids w (ids_issued w) \<and>
           map fst d = [''userId'', ''title'', ''description'', ''dueDate'', ''createdAt'',
                        ''updatedAt'', ''completed''] \<and>
           map_of d ''userId'' = Some (JStr uid) \<and>
           map_of d ''completed'' = Some (JBool False) \<and>
           map_of d ''createdAt'' = Some (JTimestamp (clock w (clock_reads w))) \<and>
           map_of d ''updatedAt'' = Some (JTimestamp (clock w (Suc (clock_reads w))))"
    if s: "status (fst (post_todos req w)) = 201"
  proof -
    from s obtain token' uid' where h:
      "authorization req = Some token'" "id_tokens w token' = Some uid'"
      "fst (post_todos req w) =
       \<lparr>status = 201,
         json = JObj
           [(''id'', JStr (auto_ids w (ids_issued w))),
            (''userId'', JStr uid'),
            (''title'', js_get (body req) ''title''),
            (''description'', js_or (js_get (body req) ''description'') (JStr [])),
            (''dueDate'', js_or (js_get (body req) ''dueDate'') JNull),
            (''createdAt'', JTimestamp (clock w (clock_reads w))),
            (''updatedAt'', JTimestamp (clock w (Suc (clock_reads w)))),
            (''completed'', JBool False)]\<rparr>"
      "todos (snd (post_todos req w)) =
       todos w @
         [(auto_ids w (ids_issued w),
           [(''userId'', JStr uid'),
            (''title'', js_get (body req) ''title''),
            (''description'', js_or (js_get (body req) ''description'') (JStr [])),
            (''dueDate'', js_or (js_get (body req) ''dueDate'') JNull),
            (''createdAt'', JTimestamp (clock w (clock_reads w))),
            (''updatedAt'', JTimestamp (clock w (Suc (clock_reads w)))),
            (''completed'', JBool False)])]"
      by (rule post_todos_201_world)
    from h(1,2) assms have e: "uid' = uid" by simp
    show ?thesis
      unfolding h(3,4) e by simp
  qed
  from a b show ?thesis by blast
qed

text \<open>
  Alice sends a body that claims Bob as owner, a completed todo, timestamps and an id; the
  outcome is that of the body with the title alone.
\<close>

theorem create_todo_ignores_client_fields_witness:
  "post_todos
     \<lparr>authorization = Some ''token-alice'',
       body = [(''title'', JStr ''T''), (''userId'', JStr ''bob''), (''completed'', JBool True),
               (''createdAt'', JNum 1), (''updatedAt'', JNum 2), (''id'', JStr ''t2'')],
       param_id = []\<rparr> demo_world =
   post_todos \<lparr>authorization = Some ''token-alice'', body = [(''title'', JStr ''T'')], param_id = []\<rparr> demo_world \<and>
   status (fst (post_todos \<lparr>authorization = Some ''token-alice'', body = [(''title'', JStr ''T'')], param_id = []\<rparr> demo_world)) = 201 \<and>
   (\<exists>d. todos (snd (post_todos \<lparr>authorization = Some ''token-alice'', body = [(''title'', JStr ''T'')], param_id = []\<rparr> demo_world)) =
           todos demo_world @ [(''doc'', d)] \<and>
        map_of d ''userId'' = Some (JStr ''alice'') \<and>
        map_of d ''completed'' = Some (JBool False) \<and>
        map_of d ''createdAt'' = Some (JTimestamp 1000) \<and>
        map_of d ''updatedAt'' = Some (JTimestamp 1001))"
proof -
  let ?r = "\<lparr>authorization = Some ''token-alice'', body = [(''title'', JStr ''T'')], param_id = []\<rparr>"
  let ?r' = "\<lparr>authorization = Some ''token-alice'',
       body = [(''title'', JStr ''T''), (''userId'', JStr ''bob''), (''completed'', JBool True),
               (''createdAt'', JNum 1), (''updatedAt'', JNum 2), (''id'', JStr ''t2'')],
       param_id = []\<rparr>"
  have h: "authorization ?r = Some ''token-alice''"
    "id_tokens demo_world ''token-alice'' = Some ''alice''"
    by (simp_all add: demo_world_def)
  have s: "status (fst (post_todos ?r demo_world)) = 201"
    by (simp add: create_run_defs demo_world_def)
  have q: "authorization ?r' = Some ''token-alice'' \<and>
        js_get (body ?r') ''title'' = js_get (body ?r) ''title'' \<and>
        js_get (body ?r') ''description'' = js_get (body ?r) ''description'' \<and>
        js_get (body ?r') ''dueDate'' = js_get (body ?r) ''dueDate''"
    by (simp add: js_get_def)
  have e: "auto_ids demo_world (ids_issued demo_world) = ''doc''"
    "clock demo_world (clock_reads demo_world) = 1000"
    "clock demo_world (Suc (clock_reads demo_world)) = 1001"
    by (simp_all add: demo_world_def)
  note t = create_todo_ignores_client_fields [OF h]
  from t q have 1: "post_todos ?r' demo_world = post_todos ?r demo_world"
    by blast
  from t s have "\<exists>i d.
           todos (snd (post_todos ?r demo_world)) = todos demo_world @ [(i, d)] \<and>
           json (fst (post_todos ?r demo_world)) = JObj ((''id'', JStr i) # d) \<and>
           i = ''doc'' \<and>
           map fst d = [''userId'', ''title'', ''description'', ''dueDate'', ''createdAt'',
                        ''updatedAt'', ''completed''] \<and>
           map_of d ''userId'' = Some (JStr ''alice'') \<and>
           map_of d ''completed'' = Some (JBool False) \<and>
           map_of d ''createdAt'' = Some (JTimestamp 1000) \<and>
           map_of d ''updatedAt'' = Some (JTimestamp 1001)"
    unfolding e by blast
  then have 2: "\<exists>d. todos (snd (post_todos ?r demo_world)) = todos demo_world @ [(''doc'', d)] \<and>
        map_of d ''userId'' = Some (JStr ''alice'') \<and>
        map_of d ''completed'' = Some (JBool False) \<and>
        map_of d ''createdAt'' = Some (JTimestamp 1000) \<and>
        map_of d ''updatedAt'' = Some (JTimestamp 1001)"
    by blast
  from 1 s 2 show ?thesis by blast
qed

end
